theory Spec2Isabelle
  imports Complex_Main
begin

section \<open>The Lakeshore 625 example notebook\<close>

text \<open>
  The artifact is one Jupyter notebook, \<^verbatim>\<open>docs/examples/Lakeshore_625.ipynb\<close>: thirteen
  code cells of Python that drive a Lakeshore Model 625 magnet power supply through the
  driver class \<^verbatim>\<open>Lakeshore625\<close>. The driver itself is not part of the notebook; the
  notebook only calls it.

  The development has three layers.
  \<^item> The notebook's code cells as abstract syntax, statement by statement as they stand in
    the file (\<open>notebook\<close>), with functions that read properties off the syntax.
  \<^item> An interpreter for the Python fragment the notebook is written in. Everything outside
    the notebook (the import system, the driver objects) is an oracle: the interpreter
    records each request it makes and consumes one answer per request.
  \<^item> Python's float arithmetic as a parameter of the interpreter, with two instances:
    exact arithmetic on the reals and IEEE 754 binary64 with round-to-nearest-even.
\<close>

subsection \<open>Abstract syntax\<close>

text \<open>
  The syntax follows Python's \<^verbatim>\<open>ast\<close> module. A float literal is kept as the decimal it is
  written as: \<open>CFloat m e\<close> is \<open>m \<times> 10\<^sup>-\<^sup>e\<close>, so \<^verbatim>\<open>0.0166614\<close> is \<open>CFloat 166614 7\<close>.
\<close>

datatype const = CNone | CBool bool | CFloat int nat | CStr string

datatype binop = Mult | Div

text \<open>
  Expression forms the notebook does not use are kept in the grammar by kind, with their
  subexpressions, so that their absence from the notebook is a checked fact and not an
  artefact of the type.
\<close>

datatype expr_kind =
    KIfExp | KBoolOp | KCompare | KUnaryOp | KLambda | KComprehension | KAwait | KYield
  | KSubscript | KCollection | KFString

datatype expr =
    Name string
  | Constant const
  | Attribute expr string
  | Call expr "expr list" "keyword list"
  | BinOp expr binop expr
  | OtherExpr expr_kind "expr list"
and keyword = Keyword string expr

text \<open>
  Statements: the four simple forms the notebook uses, the other simple statements by
  kind, and the compound statements by kind with the expressions of their headers and
  the statements of all their blocks.
\<close>

datatype simple_kind =
    KReturn | KRaise | KAssert | KDelete | KAssignOther | KAugAssign | KPass | KBreak
  | KContinue | KGlobal | KNonlocal

datatype compound_kind =
    KIf | KWhile | KFor | KTry | KWith | KMatch | KFunctionDef | KClassDef
  | KAsyncFor | KAsyncWith | KAsyncFunctionDef

datatype stmt =
    Import string string
  | ImportFrom string string
  | Assign string expr
  | Expr expr
  | OtherSimple simple_kind "expr list"
  | Compound compound_kind "expr list" "stmt list"

text \<open>
  \<open>Import m a\<close> is \<^verbatim>\<open>import m as a\<close>; \<open>ImportFrom m n\<close> is \<^verbatim>\<open>from m import n\<close>;
  \<open>Assign x e\<close> is \<^verbatim>\<open>x = e\<close> with a single name as target; \<open>Expr e\<close> is an expression
  statement. An assignment to any other target (an attribute, a subscript, a tuple) is
  the kind \<open>KAssignOther\<close>.
\<close>

type_synonym cell = "stmt list"

subsection \<open>The notebook\<close>

text \<open>
  Shorthands for the shapes that recur in the cells: \<^verbatim>\<open>magnet.a\<close>, the call
  \<^verbatim>\<open>magnet.a(args)\<close>, a float and a string literal, \<^verbatim>\<open>'template'.format(args)\<close> and
  \<^verbatim>\<open>print(arg)\<close>.
\<close>

definition magnet_attr :: "string \<Rightarrow> expr" where
  "magnet_attr a = Attribute (Name ''magnet'') a"

definition magnet_call :: "string \<Rightarrow> expr list \<Rightarrow> keyword list \<Rightarrow> expr" where
  "magnet_call a args kws = Call (magnet_attr a) args kws"

definition num :: "int \<Rightarrow> nat \<Rightarrow> expr" where
  "num m e = Constant (CFloat m e)"

definition str :: "string \<Rightarrow> expr" where
  "str s = Constant (CStr s)"

definition format_call :: "string \<Rightarrow> expr list \<Rightarrow> expr" where
  "format_call template args = Call (Attribute (str template) ''format'') args []"

definition print_call :: "expr \<Rightarrow> expr" where
  "print_call e = Call (Name ''print'') [e] []"

text \<open>Cells 1 and 2: the two imports.\<close>

definition cell1 :: cell where
  "cell1 = [Import ''qcodes'' ''qc'']"

definition cell2 :: cell where
  "cell2 = [ImportFrom ''qcodes_contrib_drivers.drivers.Lakeshore.Model_625'' ''Lakeshore625'']"

text \<open>
  Cell 3:
  \<^verbatim>\<open>magnet = Lakeshore625(name = 'magnet', address = 'GPIB0::4::INSTR',
                        coil_constant = 0.0166614, field_ramp_rate = 0.15)\<close>
\<close>

definition cell3 :: cell where
  "cell3 = [Assign ''magnet'' (Call (Name ''Lakeshore625'') []
      [Keyword ''name'' (str ''magnet''),
       Keyword ''address'' (str ''GPIB0::4::INSTR''),
       Keyword ''coil_constant'' (num 166614 7),
       Keyword ''field_ramp_rate'' (num 15 2)])]"

text \<open>Cell 4: \<^verbatim>\<open>magnet.IDN()\<close>. Cell 5: \<^verbatim>\<open>magnet.print_readable_snapshot(update=True)\<close>.\<close>

definition cell4 :: cell where
  "cell4 = [Expr (magnet_call ''IDN'' [] [])]"

definition cell5 :: cell where
  "cell5 = [Expr (magnet_call ''print_readable_snapshot'' []
      [Keyword ''update'' (Constant (CBool True))])]"

text \<open>
  Cell 6:
  \<^verbatim>\<open>coil_const = magnet.coil_constant()
current_limit = magnet.current_limit()
current_rate_limit = magnet.current_rate_limit()
print("coil constant = {} T/A".format(coil_const))
print("current limit = {} A".format(current_limit))
print("current ramp rate limit = {} A/s".format(current_rate_limit))\<close>
\<close>

definition cell6 :: cell where
  "cell6 =
    [Assign ''coil_const'' (magnet_call ''coil_constant'' [] []),
     Assign ''current_limit'' (magnet_call ''current_limit'' [] []),
     Assign ''current_rate_limit'' (magnet_call ''current_rate_limit'' [] []),
     Expr (print_call (format_call ''coil constant = {} T/A'' [Name ''coil_const''])),
     Expr (print_call (format_call ''current limit = {} A'' [Name ''current_limit''])),
     Expr (print_call (format_call ''current ramp rate limit = {} A/s''
       [Name ''current_rate_limit'']))]"

text \<open>
  Cell 7, the conversion check:
  \<^verbatim>\<open>target_current = 0.1
target_field = coil_const * target_current
print("Target field is {} T".format(target_field))
magnet.field(target_field)
field = magnet.field()
print("Measured field is {} T".format(field))
current = field / coil_const
print("Measured current is = {} A".format(current))\<close>
\<close>

definition cell7 :: cell where
  "cell7 =
    [Assign ''target_current'' (num 1 1),
     Assign ''target_field'' (BinOp (Name ''coil_const'') Mult (Name ''target_current'')),
     Expr (print_call (format_call ''Target field is {} T'' [Name ''target_field''])),
     Expr (magnet_call ''field'' [Name ''target_field''] []),
     Assign ''field'' (magnet_call ''field'' [] []),
     Expr (print_call (format_call ''Measured field is {} T'' [Name ''field''])),
     Assign ''current'' (BinOp (Name ''field'') Div (Name ''coil_const'')),
     Expr (print_call (format_call ''Measured current is = {} A'' [Name ''current'']))]"

text \<open>
  Cell 8: \<^verbatim>\<open>magnet.field()\<close>. Cell 9: \<^verbatim>\<open>magnet.field(0.005)\<close>.
  Cell 10: \<^verbatim>\<open>magnet.set_field(0.01, block=False)\<close>.
\<close>

definition cell8 :: cell where
  "cell8 = [Expr (magnet_call ''field'' [] [])]"

definition cell9 :: cell where
  "cell9 = [Expr (magnet_call ''field'' [num 5 3] [])]"

definition cell10 :: cell where
  "cell10 = [Expr (magnet_call ''set_field'' [num 1 2]
      [Keyword ''block'' (Constant (CBool False))])]"

text \<open>
  Cell 11:
  \<^verbatim>\<open>magnet.field_ramp_rate(0.1)
print('Field ramp rate: {} {}.'.format(magnet.field_ramp_rate(), magnet.field_ramp_rate.unit))
print('Current ramp rate: {} {}.'.format(magnet.current_ramp_rate(), magnet.current_ramp_rate.unit))
magnet.field_ramp_rate(0.2)
print('Field ramp rate: {} {}.'.format(magnet.field_ramp_rate(), magnet.field_ramp_rate.unit))
print('Current ramp rate: {} {}.'.format(magnet.current_ramp_rate(), magnet.current_ramp_rate.unit))\<close>
\<close>

definition print_rate :: "string \<Rightarrow> string \<Rightarrow> stmt" where
  "print_rate template a =
     Expr (print_call (format_call template
       [magnet_call a [] [], Attribute (magnet_attr a) ''unit'']))"

definition cell11 :: cell where
  "cell11 =
    [Expr (magnet_call ''field_ramp_rate'' [num 1 1] []),
     print_rate ''Field ramp rate: {} {}.'' ''field_ramp_rate'',
     print_rate ''Current ramp rate: {} {}.'' ''current_ramp_rate'',
     Expr (magnet_call ''field_ramp_rate'' [num 2 1] []),
     print_rate ''Field ramp rate: {} {}.'' ''field_ramp_rate'',
     print_rate ''Current ramp rate: {} {}.'' ''current_ramp_rate'']"

text \<open>
  Cell 12:
  \<^verbatim>\<open>print('Quench detection is {}.'.format(magnet.quench_detection()))
print('Current rate limit for quench detection:{} {}'.format(
    magnet.quench_current_step_limit(), magnet.quench_current_step_limit.unit))
print('There was no {}.'.format(magnet.oer_quench()))\<close>
  Cell 13 is empty.
\<close>

definition cell12 :: cell where
  "cell12 =
    [Expr (print_call (format_call ''Quench detection is {}.''
       [magnet_call ''quench_detection'' [] []])),
     print_rate ''Current rate limit for quench detection:{} {}'' ''quench_current_step_limit'',
     Expr (print_call (format_call ''There was no {}.'' [magnet_call ''oer_quench'' [] []]))]"

definition cell13 :: cell where
  "cell13 = []"

definition notebook :: "cell list" where
  "notebook = [cell1, cell2, cell3, cell4, cell5, cell6, cell7, cell8, cell9, cell10,
               cell11, cell12, cell13]"

subsection \<open>Reading the syntax\<close>

text \<open>
  Every expression that occurs in an expression: itself first, then its parts from left
  to right.
\<close>

fun subexprs :: "expr \<Rightarrow> expr list"
  and subexprs_list :: "expr list \<Rightarrow> expr list"
  and subexprs_kws :: "keyword list \<Rightarrow> expr list" where
  "subexprs (Name x) = [Name x]"
| "subexprs (Constant c) = [Constant c]"
| "subexprs (Attribute e a) = Attribute e a # subexprs e"
| "subexprs (Call f args kws) =
     Call f args kws # subexprs f @ subexprs_list args @ subexprs_kws kws"
| "subexprs (BinOp l op r) = BinOp l op r # subexprs l @ subexprs r"
| "subexprs (OtherExpr k es) = OtherExpr k es # subexprs_list es"
| "subexprs_list [] = []"
| "subexprs_list (e # es) = subexprs e @ subexprs_list es"
| "subexprs_kws [] = []"
| "subexprs_kws (Keyword k e # kws) = subexprs e @ subexprs_kws kws"

text \<open>Every statement that occurs in a statement, the blocks of compound statements included.\<close>

fun substmts :: "stmt \<Rightarrow> stmt list" where
  "substmts (Compound k es body) = Compound k es body # concat (map substmts body)"
| "substmts s = [s]"

fun stmt_exprs :: "stmt \<Rightarrow> expr list" where
  "stmt_exprs (Import m a) = []"
| "stmt_exprs (ImportFrom m n) = []"
| "stmt_exprs (Assign x e) = [e]"
| "stmt_exprs (Expr e) = [e]"
| "stmt_exprs (OtherSimple k es) = es"
| "stmt_exprs (Compound k es body) = es"

definition all_stmts :: "cell list \<Rightarrow> stmt list" where
  "all_stmts nb = concat (map substmts (concat nb))"

definition all_exprs :: "cell list \<Rightarrow> expr list" where
  "all_exprs nb = concat (map (\<lambda>s. subexprs_list (stmt_exprs s)) (all_stmts nb))"

fun is_call :: "expr \<Rightarrow> bool" where
  "is_call (Call f args kws) = True"
| "is_call e = False"

fun is_binop :: "expr \<Rightarrow> bool" where
  "is_binop (BinOp l op r) = True"
| "is_binop e = False"

fun is_other_expr :: "expr \<Rightarrow> bool" where
  "is_other_expr (OtherExpr k es) = True"
| "is_other_expr e = False"

fun is_compound :: "stmt \<Rightarrow> bool" where
  "is_compound (Compound k es body) = True"
| "is_compound s = False"

fun is_other_simple :: "stmt \<Rightarrow> bool" where
  "is_other_simple (OtherSimple k es) = True"
| "is_other_simple s = False"

text \<open>The arithmetic of an artifact, in source order.\<close>

definition arithmetic :: "cell list \<Rightarrow> expr list" where
  "arithmetic nb = filter is_binop (all_exprs nb)"

text \<open>
  A method call on the variable \<^verbatim>\<open>magnet\<close>, as the attribute called, the positional
  arguments and the keyword arguments; and an attribute read on \<^verbatim>\<open>magnet\<close>.
\<close>

fun as_magnet_call :: "expr \<Rightarrow> (string \<times> expr list \<times> keyword list) option" where
  "as_magnet_call (Call (Attribute (Name x) a) args kws) =
     (if x = ''magnet'' then Some (a, args, kws) else None)"
| "as_magnet_call e = None"

fun as_magnet_attr :: "expr \<Rightarrow> string option" where
  "as_magnet_attr (Attribute (Name x) a) = (if x = ''magnet'' then Some a else None)"
| "as_magnet_attr e = None"

definition magnet_calls :: "cell list \<Rightarrow> (string \<times> expr list \<times> keyword list) list" where
  "magnet_calls nb = List.map_filter as_magnet_call (all_exprs nb)"

definition magnet_attrs :: "cell list \<Rightarrow> string list" where
  "magnet_attrs nb = List.map_filter as_magnet_attr (all_exprs nb)"

text \<open>The names a statement binds, and every place a name is read.\<close>

fun binds :: "stmt \<Rightarrow> string list" where
  "binds (Import m a) = [a]"
| "binds (ImportFrom m n) = [n]"
| "binds (Assign x e) = [x]"
| "binds s = []"

fun is_name :: "string \<Rightarrow> expr \<Rightarrow> bool" where
  "is_name x (Name y) = (x = y)"
| "is_name x e = False"

definition mentions :: "string \<Rightarrow> stmt \<Rightarrow> bool" where
  "mentions x s = (x \<in> set (binds s) \<or> list_ex (is_name x) (subexprs_list (stmt_exprs s)))"


text \<open>A call that passes a keyword argument of a given name.\<close>

fun keyword_name :: "keyword \<Rightarrow> string" where
  "keyword_name (Keyword k e) = k"

fun passes_keyword :: "string \<Rightarrow> expr \<Rightarrow> bool" where
  "passes_keyword k (Call f args kws) = (k \<in> set (map keyword_name kws))"
| "passes_keyword k e = False"

text \<open>A call of a plain name, such as the call of the driver class.\<close>

fun calls_name :: "string \<Rightarrow> expr \<Rightarrow> bool" where
  "calls_name x (Call (Name y) args kws) = (x = y)"
| "calls_name x e = False"

text \<open>
  Calls on \<^verbatim>\<open>magnet\<close> by what they pass: a positional argument (calling a parameter
  with a value sets it), and the calls that set the field.
\<close>

fun has_positional :: "string \<times> expr list \<times> keyword list \<Rightarrow> bool" where
  "has_positional (a, args, kws) = (args \<noteq> [])"

fun sets_field :: "string \<times> expr list \<times> keyword list \<Rightarrow> bool" where
  "sets_field (a, args, kws) = ((a = ''field'' \<or> a = ''set_field'') \<and> args \<noteq> [])"

fun called_in :: "string list \<Rightarrow> string \<times> expr list \<times> keyword list \<Rightarrow> bool" where
  "called_in names (a, args, kws) = (a \<in> set names)"

text \<open>
  The operations of an artifact are its calls and its arithmetic. Each is a method call
  on \<^verbatim>\<open>magnet\<close>, the construction of the driver, a \<^verbatim>\<open>print\<close>, a \<^verbatim>\<open>str.format\<close>,
  arithmetic of the artifact's own, or some other call.
\<close>

definition operations :: "cell list \<Rightarrow> expr list" where
  "operations nb = filter (\<lambda>e. is_call e \<or> is_binop e) (all_exprs nb)"

datatype op_class = DriverCall | Construction | Printing | Formatting | Arithmetic | OtherCall

fun classify :: "expr \<Rightarrow> op_class" where
  "classify (Call (Attribute (Name x) a) args kws) =
     (if x = ''magnet'' then DriverCall else OtherCall)"
| "classify (Call (Attribute (Constant (CStr t)) a) args kws) =
     (if a = ''format'' then Formatting else OtherCall)"
| "classify (Call (Name x) args kws) =
     (if x = ''print'' then Printing
      else if x = ''Lakeshore625'' then Construction else OtherCall)"
| "classify (BinOp l op r) = Arithmetic"
| "classify e = OtherCall"

definition pass_through :: "expr \<Rightarrow> bool" where
  "pass_through e = (classify e = DriverCall)"

text \<open>
  The accessors the specification lists as the driver's call surface, and the parameters
  it lists as only read.
\<close>

definition spec_accessors :: "string list" where
  "spec_accessors =
     [''current'', ''current_limit'', ''current_ramp_rate'', ''current_rate_limit'',
      ''field'', ''field_ramp_rate'', ''voltage'', ''voltage_limit'', ''quench_detection'',
      ''quench_current_step_limit'', ''oer_quench'', ''persistent_switch_heater'',
      ''ramping_state'', ''timeout'']"

definition read_only_parameters :: "string list" where
  "read_only_parameters =
     [''coil_constant'', ''current_limit'', ''current_rate_limit'', ''current_ramp_rate'',
      ''quench_detection'', ''quench_current_step_limit'', ''oer_quench'']"

text \<open>
  The notebook file stores the output of its last run. The output of cell 5 is the table
  \<^verbatim>\<open>print_readable_snapshot\<close> printed; these are the parameters of its rows.
\<close>

definition recorded_snapshot_rows :: "string list" where
  "recorded_snapshot_rows =
     [''IDN'', ''coil_constant'', ''coil_constant_unit'', ''current'', ''current_limit'',
      ''current_ramp_rate'', ''current_rate_limit'', ''field'', ''field_ramp_rate'',
      ''oer_quench'', ''operational_error_status'', ''persistent_switch_heater'',
      ''quench_current_step_limit'', ''quench_detection'', ''ramp_segments'',
      ''ramping_state'', ''timeout'', ''voltage'', ''voltage_limit'']"

subsection \<open>Values, requests and the state of a run\<close>

text \<open>
  The values the notebook handles. \<open>VObj t\<close> is an object of the outside world (a module,
  the driver class, the driver instance, one of its parameters), known only by the token
  \<open>t\<close> the outside world gave for it. \<open>VPrint\<close> is the builtin \<^verbatim>\<open>print\<close>, \<open>VFormat x\<close> the
  bound method \<^verbatim>\<open>x.format\<close> of a string, and \<open>VText x vs\<close> the string that
  \<^verbatim>\<open>x.format(*vs)\<close> builds; its characters are not computed.
\<close>

datatype 'f val =
    VNone
  | VBool bool
  | VFloat 'f
  | VStr string
  | VDict "(string \<times> string) list"
  | VObj string
  | VPrint
  | VFormat string
  | VText string "'f val list"

text \<open>
  What the notebook asks of the outside world: an import, an attribute of an object, a
  call of an object with positional and keyword arguments. The answer is a value, or the
  name of the exception the outside world raised.
\<close>

datatype 'f request =
    RImport string
  | RImportFrom string string
  | RGetAttr string string
  | RCall string "'f val list" "(string \<times> 'f val) list"

type_synonym 'f answer = "string + 'f val"

text \<open>
  A run ends in an exception (\<open>Raised\<close> with the exception's name), leaves the modelled
  fragment of Python (\<open>NotModelled\<close>), or waits for the answer to a request that never
  comes (\<open>Waiting\<close>).
\<close>

datatype 'f error = Raised string | NotModelled | Waiting "'f request"

text \<open>
  What the notebook shows: a line written by \<^verbatim>\<open>print\<close>, or the value of the last
  expression of a cell.
\<close>

datatype 'f shown = Printed "'f val list" | Displayed "'f val"

record 'f run_state =
  env :: "string \<rightharpoonup> 'f val"
  pending :: "'f answer list"
  trace :: "('f request \<times> 'f answer) list"
  out :: "'f shown list"

type_synonym ('f, 'a) comp = "'f run_state \<Rightarrow> ('f error + 'a) \<times> 'f run_state"

text \<open>
  Python's arithmetic on floats, as far as the notebook uses it: the float a decimal
  literal denotes, the product, the quotient, and the test for zero that decides whether
  a division raises.
\<close>

record 'f arith =
  fl_lit :: "int \<Rightarrow> nat \<Rightarrow> 'f"
  fl_mul :: "'f \<Rightarrow> 'f \<Rightarrow> 'f"
  fl_div :: "'f \<Rightarrow> 'f \<Rightarrow> 'f"
  fl_zero :: "'f \<Rightarrow> bool"

subsection \<open>The interpreter\<close>

text \<open>
  Sequencing: the second computation runs on the value and the state the first one
  leaves; an error of the first ends both. No construct of the interpreter inspects an
  error.
\<close>

definition and_then :: "('f, 'a) comp \<Rightarrow> ('a \<Rightarrow> ('f, 'b) comp) \<Rightarrow> ('f, 'b) comp" where
  "and_then m k s = (case m s of (Inl err, s1) \<Rightarrow> (Inl err, s1) | (Inr v, s1) \<Rightarrow> k v s1)"

definition return :: "'a \<Rightarrow> ('f, 'a) comp" where
  "return v s = (Inr v, s)"

definition fail :: "'f error \<Rightarrow> ('f, 'a) comp" where
  "fail err s = (Inl err, s)"

text \<open>A request takes the next pending answer and records the exchange.\<close>

definition ask :: "'f request \<Rightarrow> ('f, 'f val) comp" where
  "ask q s =
     (case pending s of
        [] \<Rightarrow> (Inl (Waiting q), s)
      | a # rest \<Rightarrow>
          ((case a of Inl x \<Rightarrow> Inl (Raised x) | Inr v \<Rightarrow> Inr v),
           s\<lparr>pending := rest, trace := trace s @ [(q, a)]\<rparr>))"

definition bind_name :: "string \<Rightarrow> 'f val \<Rightarrow> ('f, unit) comp" where
  "bind_name x v s = (Inr (), s\<lparr>env := (env s)(x \<mapsto> v)\<rparr>)"

definition show_out :: "'f shown list \<Rightarrow> ('f, unit) comp" where
  "show_out xs s = (Inr (), s\<lparr>out := out s @ xs\<rparr>)"

fun const_val :: "'f arith \<Rightarrow> const \<Rightarrow> 'f val" where
  "const_val ar CNone = VNone"
| "const_val ar (CBool b) = VBool b"
| "const_val ar (CFloat m e) = VFloat (fl_lit ar m e)"
| "const_val ar (CStr x) = VStr x"

text \<open>
  \<^verbatim>\<open>*\<close> and \<^verbatim>\<open>/\<close> on two floats; a float division by zero raises
  \<^verbatim>\<open>ZeroDivisionError\<close>. Other operand types are outside the fragment.
\<close>

fun arith_op :: "'f arith \<Rightarrow> binop \<Rightarrow> 'f val \<Rightarrow> 'f val \<Rightarrow> ('f, 'f val) comp" where
  "arith_op ar Mult (VFloat x) (VFloat y) = return (VFloat (fl_mul ar x y))"
| "arith_op ar Div (VFloat x) (VFloat y) =
     (if fl_zero ar y then fail (Raised ''ZeroDivisionError'')
      else return (VFloat (fl_div ar x y)))"
| "arith_op ar op a b = fail NotModelled"

text \<open>
  The number of \<^verbatim>\<open>{}\<close> fields of a format template; \<open>None\<close> when the template uses a
  brace in any other way.
\<close>

fun fields :: "string \<Rightarrow> nat option" where
  "fields [] = Some 0"
| "fields [c] = (if c = CHR ''{'' \<or> c = CHR ''}'' then None else Some 0)"
| "fields (c # d # cs) =
     (if c = CHR ''{'' \<and> d = CHR ''}'' then map_option Suc (fields cs)
      else if c = CHR ''{'' \<or> c = CHR ''}'' then None
      else fields (d # cs))"

text \<open>
  An attribute of an outside object is a request. Of a string only \<^verbatim>\<open>format\<close> is
  modelled.
\<close>

fun getattr :: "'f val \<Rightarrow> string \<Rightarrow> ('f, 'f val) comp" where
  "getattr (VObj t) a = ask (RGetAttr t a)"
| "getattr (VStr x) a = (if a = ''format'' then return (VFormat x) else fail NotModelled)"
| "getattr v a = fail NotModelled"

text \<open>
  A call of an outside object is a request. \<^verbatim>\<open>print\<close> writes a line and returns
  \<^verbatim>\<open>None\<close>. \<^verbatim>\<open>format\<close> raises \<^verbatim>\<open>IndexError\<close> when the template has more fields than
  there are arguments. Calling a value that is not callable raises \<^verbatim>\<open>TypeError\<close>.
\<close>

fun call_val :: "'f val \<Rightarrow> 'f val list \<Rightarrow> (string \<times> 'f val) list \<Rightarrow> ('f, 'f val) comp" where
  "call_val (VObj t) vs ks = ask (RCall t vs ks)"
| "call_val VPrint vs ks =
     (if ks = [] then and_then (show_out [Printed vs]) (\<lambda>u. return VNone)
      else fail NotModelled)"
| "call_val (VFormat x) vs ks =
     (if ks \<noteq> [] then fail NotModelled
      else case fields x of
        None \<Rightarrow> fail NotModelled
      | Some n \<Rightarrow> if n \<le> length vs then return (VText x vs) else fail (Raised ''IndexError''))"
| "call_val v vs ks = fail (Raised ''TypeError'')"

text \<open>
  Expressions, evaluated in Python's order: the callee, the positional arguments from
  left to right, the keyword arguments from left to right, then the call. A name is
  looked up in the notebook's namespace; \<^verbatim>\<open>print\<close> is the one builtin modelled.
\<close>

definition lookup :: "string \<Rightarrow> ('f, 'f val) comp" where
  "lookup x s =
     (case env s x of
        Some v \<Rightarrow> (Inr v, s)
      | None \<Rightarrow> if x = ''print'' then (Inr VPrint, s) else (Inl NotModelled, s))"

fun eval :: "'f arith \<Rightarrow> expr \<Rightarrow> ('f, 'f val) comp"
  and eval_list :: "'f arith \<Rightarrow> expr list \<Rightarrow> ('f, 'f val list) comp"
  and eval_kws :: "'f arith \<Rightarrow> keyword list \<Rightarrow> ('f, (string \<times> 'f val) list) comp" where
  "eval ar (Name x) s = lookup x s"
| "eval ar (Constant c) s = return (const_val ar c) s"
| "eval ar (Attribute e a) s = and_then (eval ar e) (\<lambda>v. getattr v a) s"
| "eval ar (Call f args kws) s =
     and_then (eval ar f) (\<lambda>v.
     and_then (eval_list ar args) (\<lambda>vs.
     and_then (eval_kws ar kws) (\<lambda>ks.
     call_val v vs ks))) s"
| "eval ar (BinOp l op r) s =
     and_then (eval ar l) (\<lambda>a.
     and_then (eval ar r) (\<lambda>b.
     arith_op ar op a b)) s"
| "eval ar (OtherExpr k es) s = fail NotModelled s"
| "eval_list ar [] s = return [] s"
| "eval_list ar (e # es) s =
     and_then (eval ar e) (\<lambda>v.
     and_then (eval_list ar es) (\<lambda>vs.
     return (v # vs))) s"
| "eval_kws ar [] s = return [] s"
| "eval_kws ar (Keyword k e # kws) s =
     and_then (eval ar e) (\<lambda>v.
     and_then (eval_kws ar kws) (\<lambda>ks.
     return ((k, v) # ks))) s"

text \<open>Statements. Those outside the fragment have no meaning here.\<close>

fun exec_stmt :: "'f arith \<Rightarrow> stmt \<Rightarrow> ('f, unit) comp" where
  "exec_stmt ar (Import m a) = and_then (ask (RImport m)) (bind_name a)"
| "exec_stmt ar (ImportFrom m n) = and_then (ask (RImportFrom m n)) (bind_name n)"
| "exec_stmt ar (Assign x e) = and_then (eval ar e) (bind_name x)"
| "exec_stmt ar (Expr e) = and_then (eval ar e) (\<lambda>v. return ())"
| "exec_stmt ar (OtherSimple k es) = fail NotModelled"
| "exec_stmt ar (Compound k es body) = fail NotModelled"

text \<open>
  A cell runs its statements in order and stops at the first error. When its last
  statement is an expression, the notebook displays the value, unless it is \<^verbatim>\<open>None\<close>.
\<close>

definition display :: "'f val \<Rightarrow> 'f shown list" where
  "display v = (if v = VNone then [] else [Displayed v])"

fun exec_cell :: "'f arith \<Rightarrow> cell \<Rightarrow> ('f, unit) comp" where
  "exec_cell ar [] = return ()"
| "exec_cell ar [Expr e] = and_then (eval ar e) (\<lambda>v. show_out (display v))"
| "exec_cell ar (st # rest) = and_then (exec_stmt ar st) (\<lambda>u. exec_cell ar rest)"

text \<open>The cells run in order; the first error ends the run.\<close>

fun exec_cells :: "'f arith \<Rightarrow> cell list \<Rightarrow> ('f, unit) comp" where
  "exec_cells ar [] = return ()"
| "exec_cells ar (c # cs) = and_then (exec_cell ar c) (\<lambda>u. exec_cells ar cs)"

definition run ::
  "'f arith \<Rightarrow> cell list \<Rightarrow> 'f answer list \<Rightarrow> ('f error + unit) \<times> 'f run_state" where
  "run ar nb answers =
     exec_cells ar nb \<lparr>env = Map.empty, pending = answers, trace = [], out = []\<rparr>"


subsection \<open>Float arithmetic\<close>

text \<open>Exact arithmetic on the reals: what the conversions mean mathematically.\<close>

definition exact :: "real arith" where
  "exact = \<lparr>fl_lit = (\<lambda>m e. of_int m / 10 ^ e), fl_mul = (*), fl_div = (/),
            fl_zero = (\<lambda>x. x = 0)\<rparr>"

text \<open>
  Python's \<^verbatim>\<open>float\<close> is IEEE 754 binary64. A float is a finite value, an infinity
  (\<open>Inf True\<close> is the negative one) or not-a-number; the two zeros are not told apart,
  as Python's \<^verbatim>\<open>==\<close> does not tell them apart. Every operation returns the exact result
  rounded to the nearest float, ties to the even significand: a finite float is an
  integer of at most 53 bits times a power of two, the exponent at least \<open>-1074\<close>, and
  a result that rounds to \<open>2\<^sup>1\<^sup>0\<^sup>2\<^sup>4\<close> or beyond is infinite.
\<close>

datatype f64 = Fin real | Inf bool | NaN

text \<open>The number of binary digits of a natural number.\<close>

fun bitlen :: "nat \<Rightarrow> nat" where
  "bitlen n = (if n = 0 then 0 else Suc (bitlen (n div 2)))"

definition pow2 :: "int \<Rightarrow> real" where
  "pow2 e = (if 0 \<le> e then 2 ^ nat e else 1 / 2 ^ nat (- e))"

text \<open>For \<open>x > 0\<close>, the integer \<open>k\<close> with \<open>2\<^sup>k \<le> x < 2\<^sup>k\<^sup>+\<^sup>1\<close>.\<close>

definition ilog2 :: "real \<Rightarrow> int" where
  "ilog2 x = (if 1 \<le> x then int (bitlen (nat \<lfloor>x\<rfloor>)) - 1
              else - int (bitlen (nat (\<lceil>1 / x\<rceil> - 1))))"

definition round_half_even :: "real \<Rightarrow> int" where
  "round_half_even y =
     (if y - of_int \<lfloor>y\<rfloor> < 1 / 2 then \<lfloor>y\<rfloor>
      else if 1 / 2 < y - of_int \<lfloor>y\<rfloor> then \<lfloor>y\<rfloor> + 1
      else if even \<lfloor>y\<rfloor> then \<lfloor>y\<rfloor> else \<lfloor>y\<rfloor> + 1)"

text \<open>
  \<open>round_to a e\<close> is the multiple of \<open>2\<^sup>e\<close> nearest to \<open>a\<close>; \<open>ulp_exp a\<close> is the exponent
  of the last place of a 53-bit significand for \<open>a\<close>, bounded below for the subnormal
  range.
\<close>

definition round_to :: "real \<Rightarrow> int \<Rightarrow> real" where
  "round_to a e = of_int (round_half_even (a / pow2 e)) * pow2 e"

definition ulp_exp :: "real \<Rightarrow> int" where
  "ulp_exp a = max (ilog2 a - 52) (- 1074)"

definition round64 :: "real \<Rightarrow> f64" where
  "round64 x =
     (if x = 0 then Fin 0
      else if pow2 1024 \<le> round_to \<bar>x\<bar> (ulp_exp \<bar>x\<bar>) then Inf (x < 0)
      else Fin (sgn x * round_to \<bar>x\<bar> (ulp_exp \<bar>x\<bar>)))"

fun f64_mul :: "f64 \<Rightarrow> f64 \<Rightarrow> f64" where
  "f64_mul (Fin x) (Fin y) = round64 (x * y)"
| "f64_mul (Fin x) (Inf t) = (if x = 0 then NaN else Inf ((x < 0) \<noteq> t))"
| "f64_mul (Inf s) (Fin y) = (if y = 0 then NaN else Inf (s \<noteq> (y < 0)))"
| "f64_mul (Inf s) (Inf t) = Inf (s \<noteq> t)"
| "f64_mul x y = NaN"

text \<open>
  The quotient for a divisor that is not zero; Python raises before dividing by zero
  (\<open>arith_op\<close>).
\<close>

fun f64_div :: "f64 \<Rightarrow> f64 \<Rightarrow> f64" where
  "f64_div (Fin x) (Fin y) = (if y = 0 then NaN else round64 (x / y))"
| "f64_div (Fin x) (Inf t) = Fin 0"
| "f64_div (Inf s) (Fin y) = Inf (s \<noteq> (y < 0))"
| "f64_div x y = NaN"

fun f64_zero :: "f64 \<Rightarrow> bool" where
  "f64_zero (Fin x) = (x = 0)"
| "f64_zero x = False"

text \<open>A decimal literal denotes the float nearest to it.\<close>

definition f64_lit :: "int \<Rightarrow> nat \<Rightarrow> f64" where
  "f64_lit m e = round64 (of_int m / 10 ^ e)"

definition binary64 :: "f64 arith" where
  "binary64 = \<lparr>fl_lit = f64_lit, fl_mul = f64_mul, fl_div = f64_div, fl_zero = f64_zero\<rparr>"

subsection \<open>A complete run\<close>

text \<open>
  The answers of an outside world in which every request succeeds and the notebook runs
  to its end, in the order the notebook asks: \<open>ob k\<close> is the token of the object that
  answers request \<open>k\<close>, \<open>dv k\<close> the value that answers request \<open>k\<close>, \<open>c\<close> the float that
  \<^verbatim>\<open>magnet.coil_constant()\<close> returns and \<open>f\<close> the float that the \<^verbatim>\<open>magnet.field()\<close> of
  cell 7 returns. Requests are numbered from 0.
\<close>

definition answers ::
  "(nat \<Rightarrow> string) \<Rightarrow> (nat \<Rightarrow> 'f val) \<Rightarrow> 'f \<Rightarrow> 'f \<Rightarrow> 'f answer list" where
  "answers ob dv c f =
    [Inr (dv 0), Inr (VObj (ob 1)), Inr (VObj (ob 2)),
     Inr (VObj (ob 3)), Inr (dv 4),
     Inr (VObj (ob 5)), Inr (dv 6),
     Inr (VObj (ob 7)), Inr (VFloat c),
     Inr (VObj (ob 9)), Inr (dv 10),
     Inr (VObj (ob 11)), Inr (dv 12),
     Inr (VObj (ob 13)), Inr (dv 14),
     Inr (VObj (ob 15)), Inr (VFloat f),
     Inr (VObj (ob 17)), Inr (dv 18),
     Inr (VObj (ob 19)), Inr (dv 20),
     Inr (VObj (ob 21)), Inr (dv 22),
     Inr (VObj (ob 23)), Inr (dv 24),
     Inr (VObj (ob 25)), Inr (dv 26), Inr (VObj (ob 27)), Inr (dv 28),
     Inr (VObj (ob 29)), Inr (dv 30), Inr (VObj (ob 31)), Inr (dv 32),
     Inr (VObj (ob 33)), Inr (dv 34),
     Inr (VObj (ob 35)), Inr (dv 36), Inr (VObj (ob 37)), Inr (dv 38),
     Inr (VObj (ob 39)), Inr (dv 40), Inr (VObj (ob 41)), Inr (dv 42),
     Inr (VObj (ob 43)), Inr (dv 44),
     Inr (VObj (ob 45)), Inr (dv 46), Inr (VObj (ob 47)), Inr (dv 48),
     Inr (VObj (ob 49)), Inr (dv 50)]"

text \<open>
  The requests of a complete run. \<open>method_req ob k a vs ks\<close> is \<^verbatim>\<open>magnet.a(vs, ks)\<close>:
  the attribute \<open>a\<close> of the driver instance \<open>ob 2\<close>, then the call of the object
  \<open>ob k\<close> that answered. \<open>unit_req ob k a\<close> is \<^verbatim>\<open>magnet.a.unit\<close>.
\<close>

definition method_req ::
  "(nat \<Rightarrow> string) \<Rightarrow> nat \<Rightarrow> string \<Rightarrow> 'f val list \<Rightarrow> (string \<times> 'f val) list
     \<Rightarrow> 'f request list" where
  "method_req ob k a vs ks = [RGetAttr (ob 2) a, RCall (ob k) vs ks]"

definition unit_req :: "(nat \<Rightarrow> string) \<Rightarrow> nat \<Rightarrow> string \<Rightarrow> 'f request list" where
  "unit_req ob k a = [RGetAttr (ob 2) a, RGetAttr (ob k) ''unit'']"

definition construction :: "'f arith \<Rightarrow> (nat \<Rightarrow> string) \<Rightarrow> 'f request" where
  "construction ar ob =
     RCall (ob 1) []
       [(''name'', VStr ''magnet''), (''address'', VStr ''GPIB0::4::INSTR''),
        (''coil_constant'', VFloat (fl_lit ar 166614 7)),
        (''field_ramp_rate'', VFloat (fl_lit ar 15 2))]"

definition requests :: "'f arith \<Rightarrow> (nat \<Rightarrow> string) \<Rightarrow> 'f \<Rightarrow> 'f request list" where
  "requests ar ob c =
     [RImport ''qcodes'',
      RImportFrom ''qcodes_contrib_drivers.drivers.Lakeshore.Model_625'' ''Lakeshore625'',
      construction ar ob]
     @ method_req ob 3 ''IDN'' [] []
     @ method_req ob 5 ''print_readable_snapshot'' [] [(''update'', VBool True)]
     @ method_req ob 7 ''coil_constant'' [] []
     @ method_req ob 9 ''current_limit'' [] []
     @ method_req ob 11 ''current_rate_limit'' [] []
     @ method_req ob 13 ''field'' [VFloat (fl_mul ar c (fl_lit ar 1 1))] []
     @ method_req ob 15 ''field'' [] []
     @ method_req ob 17 ''field'' [] []
     @ method_req ob 19 ''field'' [VFloat (fl_lit ar 5 3)] []
     @ method_req ob 21 ''set_field'' [VFloat (fl_lit ar 1 2)] [(''block'', VBool False)]
     @ method_req ob 23 ''field_ramp_rate'' [VFloat (fl_lit ar 1 1)] []
     @ method_req ob 25 ''field_ramp_rate'' [] [] @ unit_req ob 27 ''field_ramp_rate''
     @ method_req ob 29 ''current_ramp_rate'' [] [] @ unit_req ob 31 ''current_ramp_rate''
     @ method_req ob 33 ''field_ramp_rate'' [VFloat (fl_lit ar 2 1)] []
     @ method_req ob 35 ''field_ramp_rate'' [] [] @ unit_req ob 37 ''field_ramp_rate''
     @ method_req ob 39 ''current_ramp_rate'' [] [] @ unit_req ob 41 ''current_ramp_rate''
     @ method_req ob 43 ''quench_detection'' [] []
     @ method_req ob 45 ''quench_current_step_limit'' [] []
     @ unit_req ob 47 ''quench_current_step_limit''
     @ method_req ob 49 ''oer_quench'' [] []"

text \<open>
  What a complete run shows. A line of the notebook is one \<^verbatim>\<open>print\<close> of one formatted
  string. Cells 4, 5, 8, 9 and 10 end in a method call on \<^verbatim>\<open>magnet\<close>, whose result the
  notebook displays unless it is \<^verbatim>\<open>None\<close>: these are the answers to requests 4, 6, 18,
  20 and 22. Cells 6, 7, 11 and 12 print their lines. The answers to requests 14, 24 and
  34, the calls \<^verbatim>\<open>magnet.field(target_field)\<close>, \<^verbatim>\<open>magnet.field_ramp_rate(0.1)\<close> and
  \<^verbatim>\<open>magnet.field_ramp_rate(0.2)\<close> that stand in the middle of cells 7 and 11, occur
  nowhere in it.
\<close>

definition line :: "string \<Rightarrow> 'f val list \<Rightarrow> 'f shown" where
  "line template vs = Printed [VText template vs]"

definition shown_by_cell7 :: "'f arith \<Rightarrow> 'f \<Rightarrow> 'f \<Rightarrow> 'f shown list" where
  "shown_by_cell7 ar c f =
     [line ''Target field is {} T'' [VFloat (fl_mul ar c (fl_lit ar 1 1))],
      line ''Measured field is {} T'' [VFloat f],
      line ''Measured current is = {} A'' [VFloat (fl_div ar f c)]]"

definition shown_by_run :: "'f arith \<Rightarrow> (nat \<Rightarrow> 'f val) \<Rightarrow> 'f \<Rightarrow> 'f \<Rightarrow> 'f shown list" where
  "shown_by_run ar dv c f =
     (if dv 4 = VNone then [] else [Displayed (dv 4)]) @
     (if dv 6 = VNone then [] else [Displayed (dv 6)]) @
     [line ''coil constant = {} T/A'' [VFloat c],
      line ''current limit = {} A'' [dv 10],
      line ''current ramp rate limit = {} A/s'' [dv 12]] @
     shown_by_cell7 ar c f @
     (if dv 18 = VNone then [] else [Displayed (dv 18)]) @
     (if dv 20 = VNone then [] else [Displayed (dv 20)]) @
     (if dv 22 = VNone then [] else [Displayed (dv 22)]) @
     [line ''Field ramp rate: {} {}.'' [dv 26, dv 28],
      line ''Current ramp rate: {} {}.'' [dv 30, dv 32],
      line ''Field ramp rate: {} {}.'' [dv 36, dv 38],
      line ''Current ramp rate: {} {}.'' [dv 40, dv 42],
      line ''Quench detection is {}.'' [dv 44],
      line ''Current rate limit for quench detection:{} {}'' [dv 46, dv 48],
      line ''There was no {}.'' [dv 50]]"

text \<open>What a run has shown when it reaches the division of cell 7.\<close>

definition shown_before_division :: "'f arith \<Rightarrow> (nat \<Rightarrow> 'f val) \<Rightarrow> 'f \<Rightarrow> 'f \<Rightarrow> 'f shown list" where
  "shown_before_division ar dv c f =
     (if dv 4 = VNone then [] else [Displayed (dv 4)]) @
     (if dv 6 = VNone then [] else [Displayed (dv 6)]) @
     [line ''coil constant = {} T/A'' [VFloat c],
      line ''current limit = {} A'' [dv 10],
      line ''current ramp rate limit = {} A/s'' [dv 12]] @
     take 2 (shown_by_cell7 ar c f)"



definition names_bound ::
  "'f arith \<Rightarrow> (nat \<Rightarrow> string) \<Rightarrow> (nat \<Rightarrow> 'f val) \<Rightarrow> 'f \<Rightarrow> 'f \<Rightarrow> string \<rightharpoonup> 'f val" where
  "names_bound ar ob dv c f =
     [''qc'' \<mapsto> dv 0, ''Lakeshore625'' \<mapsto> VObj (ob 1), ''magnet'' \<mapsto> VObj (ob 2),
      ''coil_const'' \<mapsto> VFloat c, ''current_limit'' \<mapsto> dv 10,
      ''current_rate_limit'' \<mapsto> dv 12,
      ''target_current'' \<mapsto> VFloat (fl_lit ar 1 1),
      ''target_field'' \<mapsto> VFloat (fl_mul ar c (fl_lit ar 1 1)),
      ''field'' \<mapsto> VFloat f, ''current'' \<mapsto> VFloat (fl_div ar f c)]"

definition final_state :: "'f arith \<Rightarrow> (nat \<Rightarrow> string) \<Rightarrow> (nat \<Rightarrow> 'f val) \<Rightarrow> 'f \<Rightarrow> 'f \<Rightarrow> 'f run_state" where
  "final_state ar ob dv c f =
     \<lparr>env = names_bound ar ob dv c f, pending = [],
      trace = zip (requests ar ob c) (answers ob dv c f),
      out = shown_by_run ar dv c f\<rparr>"

text \<open>Requests by what they pass.\<close>

fun request_keyword :: "string \<Rightarrow> 'f request \<Rightarrow> bool" where
  "request_keyword k (RCall t vs ks) = (k \<in> set (map fst ks))"
| "request_keyword k q = False"

fun request_positional :: "'f request \<Rightarrow> bool" where
  "request_positional (RCall t vs ks) = (vs \<noteq> [])"
| "request_positional q = False"

fun request_passes :: "'f request \<Rightarrow> bool" where
  "request_passes (RCall t vs ks) = (vs \<noteq> [] \<or> ks \<noteq> [])"
| "request_passes q = False"

subsection \<open>The recorded run\<close>

text \<open>
  The outputs stored in the notebook file give the answers of the run that was recorded:
  the identification (cell 4), the coil constant \<^verbatim>\<open>0.01666\<close> and the two limits (cell 6),
  the measured field \<^verbatim>\<open>0.001678\<close> (cells 7 and 8), the ramp rates with their units (cell
  11) and the quench status (cell 12). Cells 5, 9 and 10 display nothing: their calls
  returned \<^verbatim>\<open>None\<close>. The tokens of the objects are not in the file: the object that
  answers request \<open>k\<close> is named by the expression that asked for it, so that the reads
  of one attribute of \<^verbatim>\<open>magnet\<close> return one object.
\<close>

definition recorded_token :: "nat \<Rightarrow> string" where
  "recorded_token k =
     (if k = 1 then ''Lakeshore625''
      else if k = 2 then ''magnet''
      else if k = 3 then ''magnet.IDN''
      else if k = 5 then ''magnet.print_readable_snapshot''
      else if k = 7 then ''magnet.coil_constant''
      else if k = 9 then ''magnet.current_limit''
      else if k = 11 then ''magnet.current_rate_limit''
      else if k = 13 \<or> k = 15 \<or> k = 17 \<or> k = 19 then ''magnet.field''
      else if k = 21 then ''magnet.set_field''
      else if k = 23 \<or> k = 25 \<or> k = 27 \<or> k = 33 \<or> k = 35 \<or> k = 37
        then ''magnet.field_ramp_rate''
      else if k = 29 \<or> k = 31 \<or> k = 39 \<or> k = 41 then ''magnet.current_ramp_rate''
      else if k = 43 then ''magnet.quench_detection''
      else if k = 45 \<or> k = 47 then ''magnet.quench_current_step_limit''
      else if k = 49 then ''magnet.oer_quench''
      else [])"

definition recorded_value :: "'f arith \<Rightarrow> nat \<Rightarrow> 'f val" where
  "recorded_value ar k =
     (if k = 0 then VObj ''qcodes''
      else if k = 4 then
        VDict [(''vendor'', ''LSCI''), (''model'', ''625''), (''serial'', ''6251287''),
               (''firmware'', ''1.3/1.1'')]
      else if k = 10 then VFloat (fl_lit ar 550 1)
      else if k = 12 then VFloat (fl_lit ar 3 1)
      else if k = 18 then VFloat (fl_lit ar 1678 6)
      else if k = 26 then VFloat (fl_lit ar 9996000000000001 17)
      else if k = 30 then VFloat (fl_lit ar 1 1)
      else if k = 36 then VFloat (fl_lit ar 19992000000000001 17)
      else if k = 40 then VFloat (fl_lit ar 2 1)
      else if k = 46 then VFloat (fl_lit ar 4 1)
      else if k = 28 \<or> k = 38 then VStr ''T/min''
      else if k = 32 \<or> k = 42 \<or> k = 48 then VStr ''A/s''
      else if k = 44 then VStr ''enabled''
      else if k = 50 then VStr ''no quench detected''
      else VNone)"

definition recorded_coil :: "'f arith \<Rightarrow> 'f" where
  "recorded_coil ar = fl_lit ar 1666 5"

definition recorded_field :: "'f arith \<Rightarrow> 'f" where
  "recorded_field ar = fl_lit ar 1678 6"

definition recorded_answers :: "'f arith \<Rightarrow> 'f answer list" where
  "recorded_answers ar =
     answers recorded_token (recorded_value ar) (recorded_coil ar) (recorded_field ar)"


subsection \<open>Computations that only ask\<close>

text \<open>
  The state a run starts in, and the property of a computation that makes runs
  predictable from their answers: it only ever appends to the trace, consumes one
  answer per exchange, stops with \<open>Waiting\<close> exactly when the answers have run out, ends
  with the error when the next answer is one, and is otherwise unaffected by answers it
  has not consumed.
\<close>

definition start :: "'f answer list \<Rightarrow> 'f run_state" where
  "start as = \<lparr>env = Map.empty, pending = as, trace = [], out = []\<rparr>"

definition steady :: "('f, 'a) comp \<Rightarrow> bool" where
  "steady m \<longleftrightarrow> (\<forall>s r s'. m s = (r, s') \<longrightarrow>
     (\<exists>tr. trace s' = trace s @ tr) \<and>
     length (trace s') + length (pending s') = length (trace s) + length (pending s) \<and>
     (case r of
        Inl (Waiting q) \<Rightarrow>
          pending s' = [] \<and>
          (\<forall>x ext. m (s\<lparr>pending := pending s @ Inl x # ext\<rparr>) =
             (Inl (Raised x), s'\<lparr>pending := ext, trace := trace s' @ [(q, Inl x)]\<rparr>)) \<and>
          (\<forall>v ext. \<exists>tr. trace (snd (m (s\<lparr>pending := pending s @ Inr v # ext\<rparr>))) =
             trace s' @ (q, Inr v) # tr)
      | _ \<Rightarrow> (\<forall>ext. m (s\<lparr>pending := pending s @ ext\<rparr>) = (r, s'\<lparr>pending := pending s' @ ext\<rparr>))))"

section \<open>Properties of the interpreter\<close>

subsection \<open>Every computation of the interpreter only asks\<close>

lemma steady_return: "steady (return v)"
  by (simp add: steady_def return_def)

lemma steady_fail_Raised: "steady (fail (Raised x))"
  by (simp add: steady_def fail_def)

lemma steady_fail_NotModelled: "steady (fail NotModelled)"
  by (simp add: steady_def fail_def)

lemma steady_bind_name: "steady (bind_name x v)"
  by (auto simp add: steady_def bind_name_def)

lemma steady_show_out: "steady (show_out xs)"
  by (auto simp add: steady_def show_out_def)

lemma steady_lookup: "steady (lookup x)"
  by (auto simp add: steady_def lookup_def split: option.splits)

lemma steady_ask: "steady (ask q)"
  by (auto simp add: steady_def ask_def split: list.splits sum.splits)


lemma steady_mono: "steady m \<Longrightarrow> m s = (r, s') \<Longrightarrow> \<exists>tr. trace s' = trace s @ tr"
  by (simp add: steady_def)

lemma steady_length:
  "steady m \<Longrightarrow> m s = (r, s') \<Longrightarrow>
   length (trace s') + length (pending s') = length (trace s) + length (pending s)"
  by (simp add: steady_def)

lemma steady_waiting_pending:
  "steady m \<Longrightarrow> m s = (Inl (Waiting q), s') \<Longrightarrow> pending s' = []"
  unfolding steady_def by fastforce

lemma steady_waiting_error:
  "steady m \<Longrightarrow> m s = (Inl (Waiting q), s') \<Longrightarrow>
   m (s\<lparr>pending := pending s @ Inl x # ext\<rparr>) =
     (Inl (Raised x), s'\<lparr>pending := ext, trace := trace s' @ [(q, Inl x)]\<rparr>)"
  unfolding steady_def by fastforce

lemma steady_waiting_value:
  "steady m \<Longrightarrow> m s = (Inl (Waiting q), s') \<Longrightarrow>
   \<exists>tr. trace (snd (m (s\<lparr>pending := pending s @ Inr v # ext\<rparr>))) = trace s' @ (q, Inr v) # tr"
  unfolding steady_def by fastforce

lemma steady_extend:
  assumes "steady m" and "m s = (r, s')" and "\<And>q. r \<noteq> Inl (Waiting q)"
  shows "m (s\<lparr>pending := pending s @ ext\<rparr>) = (r, s'\<lparr>pending := pending s' @ ext\<rparr>)"
proof (cases r)
  case (Inl err)
  with assms(3) show ?thesis
    using assms(1,2) unfolding steady_def by (cases err) fastforce+
next
  case (Inr v)
  then show ?thesis
    using assms(1,2) unfolding steady_def by fastforce
qed

lemma steadyI:
  assumes "\<And>s r s'. m s = (r, s') \<Longrightarrow> \<exists>tr. trace s' = trace s @ tr"
    and "\<And>s r s'. m s = (r, s') \<Longrightarrow>
          length (trace s') + length (pending s') = length (trace s) + length (pending s)"
    and "\<And>s q s'. m s = (Inl (Waiting q), s') \<Longrightarrow> pending s' = []"
    and "\<And>s q s' x ext. m s = (Inl (Waiting q), s') \<Longrightarrow>
          m (s\<lparr>pending := pending s @ Inl x # ext\<rparr>) =
            (Inl (Raised x), s'\<lparr>pending := ext, trace := trace s' @ [(q, Inl x)]\<rparr>)"
    and "\<And>s q s' v ext. m s = (Inl (Waiting q), s') \<Longrightarrow>
          \<exists>tr. trace (snd (m (s\<lparr>pending := pending s @ Inr v # ext\<rparr>))) =
            trace s' @ (q, Inr v) # tr"
    and "\<And>s r s' ext. m s = (r, s') \<Longrightarrow> (\<And>q. r \<noteq> Inl (Waiting q)) \<Longrightarrow>
          m (s\<lparr>pending := pending s @ ext\<rparr>) = (r, s'\<lparr>pending := pending s' @ ext\<rparr>)"
  shows "steady m"
  unfolding steady_def
proof (intro allI impI conjI)
  fix s r s'
  assume run: "m s = (r, s')"
  show "\<exists>tr. trace s' = trace s @ tr" by (rule assms(1) [OF run])
  show "length (trace s') + length (pending s') = length (trace s) + length (pending s)"
    by (rule assms(2) [OF run])
  show "case r of
          Inl (Waiting q) \<Rightarrow>
            pending s' = [] \<and>
            (\<forall>x ext. m (s\<lparr>pending := pending s @ Inl x # ext\<rparr>) =
               (Inl (Raised x), s'\<lparr>pending := ext, trace := trace s' @ [(q, Inl x)]\<rparr>)) \<and>
            (\<forall>v ext. \<exists>tr. trace (snd (m (s\<lparr>pending := pending s @ Inr v # ext\<rparr>))) =
               trace s' @ (q, Inr v) # tr)
        | _ \<Rightarrow> \<forall>ext. m (s\<lparr>pending := pending s @ ext\<rparr>) = (r, s'\<lparr>pending := pending s' @ ext\<rparr>)"
  proof (cases r)
    case (Inl err)
    show ?thesis
    proof (cases err)
      case (Waiting q)
      with Inl run have w: "m s = (Inl (Waiting q), s')" by simp
      show ?thesis
        using assms(3) [OF w] assms(4) [OF w] assms(5) [OF w] Inl Waiting by simp
    next
      case (Raised x)
      with Inl have "\<And>q. r \<noteq> Inl (Waiting q)" by simp
      from assms(6) [OF run this] show ?thesis using Inl Raised by simp
    next
      case NotModelled
      with Inl have "\<And>q. r \<noteq> Inl (Waiting q)" by simp
      from assms(6) [OF run this] show ?thesis using Inl NotModelled by simp
    qed
  next
    case (Inr v)
    then have "\<And>q. r \<noteq> Inl (Waiting q)" by simp
    from assms(6) [OF run this] show ?thesis using Inr by simp
  qed
qed

lemma steady_and_then:
  assumes m: "steady m" and k: "\<And>v. steady (k v)"
  shows "steady (and_then m k)"
proof (rule steadyI)
  fix s r s'
  assume run: "and_then m k s = (r, s')"
  obtain r1 s1 where m1: "m s = (r1, s1)" by fastforce
  show "\<exists>tr. trace s' = trace s @ tr"
  proof (cases r1)
    case (Inl err)
    with run m1 have "s' = s1" by (simp add: and_then_def)
    with steady_mono [OF m m1] show ?thesis by simp
  next
    case (Inr v)
    with run m1 have k1: "k v s1 = (r, s')" by (simp add: and_then_def)
    from steady_mono [OF m m1] steady_mono [OF k k1] show ?thesis by auto
  qed
  show "length (trace s') + length (pending s') = length (trace s) + length (pending s)"
  proof (cases r1)
    case (Inl err)
    with run m1 have "s' = s1" by (simp add: and_then_def)
    with steady_length [OF m m1] show ?thesis by simp
  next
    case (Inr v)
    with run m1 have k1: "k v s1 = (r, s')" by (simp add: and_then_def)
    from steady_length [OF m m1] steady_length [OF k k1] show ?thesis by simp
  qed
next
  fix s q s'
  assume run: "and_then m k s = (Inl (Waiting q), s')"
  obtain r1 s1 where m1: "m s = (r1, s1)" by fastforce
  show "pending s' = []"
  proof (cases r1)
    case (Inl err)
    with run m1 have "m s = (Inl (Waiting q), s')" by (simp add: and_then_def)
    from steady_waiting_pending [OF m this] show ?thesis .
  next
    case (Inr v)
    with run m1 have "k v s1 = (Inl (Waiting q), s')" by (simp add: and_then_def)
    from steady_waiting_pending [OF k this] show ?thesis .
  qed
next
  fix s q s' x ext
  assume run: "and_then m k s = (Inl (Waiting q), s')"
  obtain r1 s1 where m1: "m s = (r1, s1)" by fastforce
  show "and_then m k (s\<lparr>pending := pending s @ Inl x # ext\<rparr>) =
          (Inl (Raised x), s'\<lparr>pending := ext, trace := trace s' @ [(q, Inl x)]\<rparr>)"
  proof (cases r1)
    case (Inl err)
    with run m1 have "m s = (Inl (Waiting q), s')" by (simp add: and_then_def)
    from steady_waiting_error [OF m this] show ?thesis by (simp add: and_then_def)
  next
    case (Inr v)
    with run m1 have k1: "k v s1 = (Inl (Waiting q), s')" by (simp add: and_then_def)
    from Inr m1 have "m s = (Inr v, s1)" by simp
    from steady_extend [OF m this]
    have "m (s\<lparr>pending := pending s @ Inl x # ext\<rparr>) =
            (Inr v, s1\<lparr>pending := pending s1 @ Inl x # ext\<rparr>)" by simp
    with steady_waiting_error [OF k k1] show ?thesis by (simp add: and_then_def)
  qed
next
  fix s q s' v ext
  assume run: "and_then m k s = (Inl (Waiting q), s')"
  obtain r1 s1 where m1: "m s = (r1, s1)" by fastforce
  show "\<exists>tr. trace (snd (and_then m k (s\<lparr>pending := pending s @ Inr v # ext\<rparr>))) =
          trace s' @ (q, Inr v) # tr"
  proof (cases r1)
    case (Inl err)
    with run m1 have w: "m s = (Inl (Waiting q), s')" by (simp add: and_then_def)
    obtain r2 s2 where m2: "m (s\<lparr>pending := pending s @ Inr v # ext\<rparr>) = (r2, s2)"
      by fastforce
    from steady_waiting_value [OF m w, of v ext] m2
    obtain tr where tr: "trace s2 = trace s' @ (q, Inr v) # tr" by auto
    show ?thesis
    proof (cases r2)
      case (Inl err2)
      with m2 tr show ?thesis by (simp add: and_then_def)
    next
      case (Inr w)
      obtain r3 s3 where k3: "k w s2 = (r3, s3)" by fastforce
      from steady_mono [OF k k3] tr obtain tr' where "trace s3 = trace s' @ (q, Inr v) # tr'"
        by auto
      with Inr m2 k3 show ?thesis by (simp add: and_then_def)
    qed
  next
    case (Inr w)
    with run m1 have k1: "k w s1 = (Inl (Waiting q), s')" by (simp add: and_then_def)
    from Inr m1 have "m s = (Inr w, s1)" by simp
    from steady_extend [OF m this]
    have "m (s\<lparr>pending := pending s @ Inr v # ext\<rparr>) =
            (Inr w, s1\<lparr>pending := pending s1 @ Inr v # ext\<rparr>)" by simp
    with steady_waiting_value [OF k k1, of v ext] show ?thesis by (simp add: and_then_def)
  qed
next
  fix s r s' ext
  assume run: "and_then m k s = (r, s')" and nw: "\<And>q. r \<noteq> Inl (Waiting q)"
  obtain r1 s1 where m1: "m s = (r1, s1)" by fastforce
  show "and_then m k (s\<lparr>pending := pending s @ ext\<rparr>) = (r, s'\<lparr>pending := pending s' @ ext\<rparr>)"
  proof (cases r1)
    case (Inl err)
    with run m1 have eq: "r = Inl err" "s' = s1" by (simp_all add: and_then_def)
    with nw have "\<And>q. r1 \<noteq> Inl (Waiting q)" using Inl by simp
    from steady_extend [OF m m1 this] Inl eq show ?thesis by (simp add: and_then_def)
  next
    case (Inr v)
    with run m1 have k1: "k v s1 = (r, s')" by (simp add: and_then_def)
    from Inr m1 have "m s = (Inr v, s1)" by simp
    from steady_extend [OF m this]
    have "m (s\<lparr>pending := pending s @ ext\<rparr>) = (Inr v, s1\<lparr>pending := pending s1 @ ext\<rparr>)"
      by simp
    with steady_extend [OF k k1 nw] show ?thesis by (simp add: and_then_def)
  qed
qed


lemmas steady_basic =
  steady_return steady_fail_Raised steady_fail_NotModelled steady_bind_name steady_show_out
  steady_lookup steady_ask

lemma steady_arith_op: "steady (arith_op ar op a b)"
  by (cases "(ar, op, a, b)" rule: arith_op.cases) (simp_all add: steady_basic)

lemma steady_getattr: "steady (getattr v a)"
  by (cases "(v, a)" rule: getattr.cases) (simp_all add: steady_basic)

lemma steady_call_val: "steady (call_val v vs ks)"
  by (cases "(v, vs, ks)" rule: call_val.cases)
     (simp_all add: steady_basic steady_and_then split: option.splits)

lemma eval_eq:
  "eval ar (Name x) = lookup x"
  "eval ar (Constant c) = return (const_val ar c)"
  "eval ar (Attribute e a) = and_then (eval ar e) (\<lambda>v. getattr v a)"
  "eval ar (Call f args kws) =
     and_then (eval ar f) (\<lambda>v.
     and_then (eval_list ar args) (\<lambda>vs.
     and_then (eval_kws ar kws) (\<lambda>ks.
     call_val v vs ks)))"
  "eval ar (BinOp l op r) =
     and_then (eval ar l) (\<lambda>a. and_then (eval ar r) (\<lambda>b. arith_op ar op a b))"
  "eval ar (OtherExpr kind es) = fail NotModelled"
  "eval_list ar [] = return []"
  "eval_list ar (e # es) =
     and_then (eval ar e) (\<lambda>v. and_then (eval_list ar es) (\<lambda>vs. return (v # vs)))"
  "eval_kws ar [] = return []"
  "eval_kws ar (Keyword k e # kws) =
     and_then (eval ar e) (\<lambda>v. and_then (eval_kws ar kws) (\<lambda>ks. return ((k, v) # ks)))"
  by (rule ext, simp)+

lemmas steady_step =
  steady_basic steady_and_then steady_getattr steady_call_val steady_arith_op

lemma steady_eval: "steady (eval ar e)"
  by (rule eval_eval_list_eval_kws.induct(1)
        [where P = "\<lambda>ar e s. steady (eval ar e)"
           and Q = "\<lambda>ar es s. steady (eval_list ar es)"
           and R = "\<lambda>ar kws s. steady (eval_kws ar kws)"])
     (simp_all only: eval_eq steady_step)

lemma steady_exec_stmt: "steady (exec_stmt ar st)"
  by (cases st) (simp_all add: steady_step steady_eval)

lemma steady_exec_cell: "steady (exec_cell ar c)"
  by (induction ar c rule: exec_cell.induct) (simp_all add: steady_step steady_eval steady_exec_stmt)

lemma steady_exec_cells: "steady (exec_cells ar nb)"
  by (induction nb) (simp_all add: steady_step steady_exec_cell)


subsection \<open>Runs and their answers\<close>

lemma run_start: "run ar nb as = exec_cells ar nb (start as)"
  by (simp add: run_def start_def)

lemma run_length:
  assumes "run ar nb as = (r, s)"
  shows "length (trace s) + length (pending s) = length as"
  using steady_length [OF steady_exec_cells, of ar nb "start as" r s] assms
  by (simp add: run_start start_def)

text \<open>A run cut off after k answers, where the full run makes rest than k requests.\<close>

lemma run_cut:
  assumes full: "run ar nb as = (r, s)" and k: "k < length (trace s)"
  obtains sk where "run ar nb (take k as) = (Inl (Waiting (fst (trace s ! k))), sk)"
    and "pending sk = []" and "trace sk = take k (trace s)"
proof -
  obtain rk sk where cut: "run ar nb (take k as) = (rk, sk)" by fastforce
  have st: "steady (exec_cells ar nb)" by (rule steady_exec_cells)
  from run_length [OF full] k have kl: "k < length as" by simp
  then obtain a ext where drop: "drop k as = a # ext"
    by (cases "drop k as") simp_all
  have split: "as = take k as @ drop k as" by simp
  from cut have cut': "exec_cells ar nb (start (take k as)) = (rk, sk)" by (simp add: run_start)
  have lenk: "length (trace sk) + length (pending sk) = k"
    using run_length [OF cut] kl by simp
  have full_run: "exec_cells ar nb ((start (take k as))\<lparr>pending := pending (start (take k as)) @ drop k as\<rparr>) = (r, s)"
    using full by (simp add: run_start start_def)
  have waiting: "\<exists>q. rk = Inl (Waiting q)"
  proof (rule ccontr)
    assume "\<not> (\<exists>q. rk = Inl (Waiting q))"
    then have "\<And>q. rk \<noteq> Inl (Waiting q)" by simp
    from steady_extend [OF st cut' this, of "drop k as"] full_run
    have "trace s = trace sk" by auto
    with lenk k show False by simp
  qed
  then obtain q where rk: "rk = Inl (Waiting q)" by blast
  from steady_waiting_pending [OF st cut' [unfolded rk]] have pend: "pending sk = []" .
  with lenk have len: "length (trace sk) = k" by simp
  have "\<exists>tr. trace s = trace sk @ (q, a) # tr"
  proof (cases a)
    case (Inl x)
    from steady_waiting_error [OF st cut' [unfolded rk], of x ext] full_run drop Inl
    show ?thesis by (auto simp add: start_def)
  next
    case (Inr v)
    from steady_waiting_value [OF st cut' [unfolded rk], of v ext] full_run drop Inr
    show ?thesis by (simp add: start_def)
  qed
  then obtain tr where tr: "trace s = trace sk @ (q, a) # tr" by blast
  with len have "take k (trace s) = trace sk" "fst (trace s ! k) = q"
    by (simp_all add: nth_append)
  with cut rk pend that show thesis by simp
qed

text \<open>An error as the answer to request k of a run that makes rest than k requests.\<close>

lemma run_error:
  assumes full: "run ar nb as = (r, s)" and k: "k < length (trace s)"
  shows "fst (run ar nb (take k as @ Inl x # rest)) = Inl (Raised x)"
    and "trace (snd (run ar nb (take k as @ Inl x # rest))) =
           take k (trace s) @ [(fst (trace s ! k), Inl x)]"
    and "pending (snd (run ar nb (take k as @ Inl x # rest))) = rest"
proof -
  from run_cut [OF full k] obtain sk
    where cut: "run ar nb (take k as) = (Inl (Waiting (fst (trace s ! k))), sk)"
      and pend: "pending sk = []" and tr: "trace sk = take k (trace s)" by blast
  have st: "steady (exec_cells ar nb)" by (rule steady_exec_cells)
  from cut have cut': "exec_cells ar nb (start (take k as)) = (Inl (Waiting (fst (trace s ! k))), sk)"
    by (simp add: run_start)
  from steady_waiting_error [OF st cut', of x rest]
  have eq: "run ar nb (take k as @ Inl x # rest) =
      (Inl (Raised x), sk\<lparr>pending := rest, trace := trace sk @ [(fst (trace s ! k), Inl x)]\<rparr>)"
    by (simp add: run_start start_def)
  show "fst (run ar nb (take k as @ Inl x # rest)) = Inl (Raised x)" by (simp add: eq)
  show "trace (snd (run ar nb (take k as @ Inl x # rest))) =
           take k (trace s) @ [(fst (trace s ! k), Inl x)]" by (simp add: eq tr)
  show "pending (snd (run ar nb (take k as @ Inl x # rest))) = rest" by (simp add: eq)
qed

text \<open>A run that ended depends only on the answers it consumed.\<close>

lemma run_consumed:
  assumes full: "run ar nb as = (r, s)" and ended: "\<And>q. r \<noteq> Inl (Waiting q)"
    and same: "take (length (trace s)) as' = take (length (trace s)) as"
  shows "run ar nb as' = (r, s\<lparr>pending := drop (length (trace s)) as'\<rparr>)"
proof -
  let ?n = "length (trace s)"
  have st: "steady (exec_cells ar nb)" by (rule steady_exec_cells)
  from run_length [OF full] have nl: "?n \<le> length as" by simp
  obtain rn sn where cut: "run ar nb (take ?n as) = (rn, sn)" by fastforce
  then have cut': "exec_cells ar nb (start (take ?n as)) = (rn, sn)" by (simp add: run_start)
  from run_length [OF cut] nl have lenn: "length (trace sn) + length (pending sn) = ?n" by simp
  have full_run: "exec_cells ar nb ((start (take ?n as))\<lparr>pending := pending (start (take ?n as)) @ drop ?n as\<rparr>) = (r, s)"
    using full by (simp add: run_start start_def)
  have not_waiting: "rn \<noteq> Inl (Waiting q)" for q
  proof
    assume rn: "rn = Inl (Waiting q)"
    from steady_waiting_pending [OF st cut' [unfolded rn]] lenn
    have len: "length (trace sn) = ?n" by simp
    show False
    proof (cases "drop ?n as")
      case Nil
      then have "take ?n as = as" using nl by simp
      with cut full rn ended show False by simp
    next
      case (Cons a ext)
      have "\<exists>tr. trace s = trace sn @ (q, a) # tr"
      proof (cases a)
        case (Inl x)
        from steady_waiting_error [OF st cut' [unfolded rn], of x ext] full_run Cons Inl
        show ?thesis by (auto simp add: start_def)
      next
        case (Inr v)
        from steady_waiting_value [OF st cut' [unfolded rn], of v ext] full_run Cons Inr
        show ?thesis by (simp add: start_def)
      qed
      with len show False by auto
    qed
  qed
  from steady_extend [OF st cut' not_waiting, of "drop ?n as"] full_run
  have r: "r = rn" and s: "s = sn\<lparr>pending := pending sn @ drop ?n as\<rparr>" by simp_all
  from arg_cong [OF s, of trace] have ts: "trace s = trace sn" by simp
  with lenn have pend: "pending sn = []" by simp
  from arg_cong [OF s, of "\<lambda>t. t\<lparr>pending := drop ?n as'\<rparr>"] pend
  have s': "s\<lparr>pending := drop ?n as'\<rparr> = sn\<lparr>pending := pending sn @ drop ?n as'\<rparr>" by simp
  have "as' = take ?n as @ drop ?n as'" using same [symmetric] by simp
  then have "run ar nb as' =
      exec_cells ar nb ((start (take ?n as))\<lparr>pending := pending (start (take ?n as)) @ drop ?n as'\<rparr>)"
    by (simp add: run_start start_def)
  also have "\<dots> = (rn, sn\<lparr>pending := pending sn @ drop ?n as'\<rparr>)"
    by (rule steady_extend [OF st cut' not_waiting])
  finally show ?thesis by (simp only: r s')
qed

subsection \<open>The notebook's complete run\<close>

lemmas shorthand_defs =
  magnet_attr_def magnet_call_def num_def str_def format_call_def print_call_def
  print_rate_def

lemmas cell_defs =
  cell1_def cell2_def cell3_def cell4_def cell5_def cell6_def cell7_def cell8_def
  cell9_def cell10_def cell11_def cell12_def cell13_def

lemmas notebook_defs = notebook_def cell_defs shorthand_defs

text \<open>What a run shows, in terms of the interpreter's \<open>display\<close>.\<close>

lemma shown_by_run_display:
  "shown_by_run ar dv c f =
     display (dv 4) @ display (dv 6) @
     [line ''coil constant = {} T/A'' [VFloat c],
      line ''current limit = {} A'' [dv 10],
      line ''current ramp rate limit = {} A/s'' [dv 12]] @
     shown_by_cell7 ar c f @
     display (dv 18) @ display (dv 20) @ display (dv 22) @
     [line ''Field ramp rate: {} {}.'' [dv 26, dv 28],
      line ''Current ramp rate: {} {}.'' [dv 30, dv 32],
      line ''Field ramp rate: {} {}.'' [dv 36, dv 38],
      line ''Current ramp rate: {} {}.'' [dv 40, dv 42],
      line ''Quench detection is {}.'' [dv 44],
      line ''Current rate limit for quench detection:{} {}'' [dv 46, dv 48],
      line ''There was no {}.'' [dv 50]]"
  unfolding shown_by_run_def display_def by (rule refl)

lemma shown_before_division_display:
  "shown_before_division ar dv c f =
     display (dv 4) @ display (dv 6) @
     [line ''coil constant = {} T/A'' [VFloat c],
      line ''current limit = {} A'' [dv 10],
      line ''current ramp rate limit = {} A/s'' [dv 12]] @
     take 2 (shown_by_cell7 ar c f)"
  unfolding shown_before_division_def display_def by (rule refl)

lemmas final_state_defs =
  final_state_def requests_def construction_def method_req_def unit_req_def answers_def
  shown_by_run_display shown_by_cell7_def line_def names_bound_def

lemma display_None: "display VNone = []"
  by (simp add: display_def)

lemmas run_defs =
  run_def notebook_defs and_then_def return_def fail_def ask_def bind_name_def show_out_def
  lookup_def display_None

lemma answers_length: "length (answers ob dv c f) = 51"
  by (simp add: answers_def)

lemma requests_length: "length (requests ar ob c) = 51"
  by (simp add: requests_def method_req_def unit_req_def)

lemma run_notebook:
  assumes "\<not> fl_zero ar c"
  shows "run ar notebook (answers ob dv c f) = (Inr (), final_state ar ob dv c f)"
  using assms by (simp add: run_defs final_state_defs)

lemma run_zero_coil:
  assumes "fl_zero ar c"
  shows "\<exists>e. run ar notebook (answers ob dv c f) =
    (Inl (Raised ''ZeroDivisionError''),
     \<lparr>env = e, pending = drop 17 (answers ob dv c f),
      trace = take 17 (zip (requests ar ob c) (answers ob dv c f)),
      out = shown_before_division ar dv c f\<rparr>)"
  using assms by (simp add: run_defs final_state_defs shown_before_division_display)

subsection \<open>Evaluating binary64 arithmetic\<close>

declare bitlen.simps [simp del]

lemma bitlen_numeral:
  "bitlen 0 = 0"
  "bitlen (Suc 0) = 1"
  "bitlen (numeral Num.One) = 1"
  "bitlen (numeral (Num.Bit0 k)) = Suc (bitlen (numeral k))"
  "bitlen (numeral (Num.Bit1 k)) = Suc (bitlen (numeral k))"
proof -
  show z: "bitlen 0 = 0" by (subst bitlen.simps) simp
  show "bitlen (Suc 0) = 1" by (subst bitlen.simps) (simp add: z)
  show "bitlen (numeral Num.One) = 1" by (subst bitlen.simps) (simp add: z)
  show "bitlen (numeral (Num.Bit0 k)) = Suc (bitlen (numeral k))"
    by (subst bitlen.simps) simp
  show "bitlen (numeral (Num.Bit1 k)) = Suc (bitlen (numeral k))"
    by (subst bitlen.simps) simp
qed

lemmas f64_eval =
  f64_lit_def round64_def round_to_def ulp_exp_def ilog2_def pow2_def round_half_even_def
  bitlen_numeral

lemma binary64_simps:
  "fl_lit binary64 = f64_lit" "fl_mul binary64 = f64_mul" "fl_div binary64 = f64_div"
  "fl_zero binary64 = f64_zero"
  by (simp_all add: binary64_def)

text \<open>
  The floats of the literals \<^verbatim>\<open>0.1\<close>, \<^verbatim>\<open>0.01666\<close>, \<^verbatim>\<open>0.001678\<close>, \<^verbatim>\<open>3.0\<close>, \<^verbatim>\<open>0.2\<close> and
  \<^verbatim>\<open>0.0\<close>.
\<close>

lemma f64_tenth: "f64_lit 1 1 = Fin (3602879701896397 / 36028797018963968)"
  by (simp add: f64_eval)

lemma f64_coil: "f64_lit 1666 5 = Fin (2400959033343759 / 144115188075855872)"
  by (simp add: f64_eval)


lemma f64_three: "f64_lit 3 0 = Fin 3"
  by (simp add: f64_eval)

lemma f64_fifth: "f64_lit 2 1 = Fin (3602879701896397 / 18014398509481984)"
  by (simp add: f64_eval)

lemma f64_nought: "f64_lit 0 0 = Fin 0"
  by (simp add: f64_eval)



lemma recorded_round_trip:
  "f64_div (f64_mul (f64_lit 1666 5) (f64_lit 1 1)) (f64_lit 1666 5) = f64_lit 1 1"
  unfolding f64_coil f64_tenth by (simp add: f64_eval)

lemma three_round_trip:
  "f64_div (f64_mul (f64_lit 3 0) (f64_lit 1 1)) (f64_lit 3 0) =
     Fin (7205759403792795 / 72057594037927936)"
  unfolding f64_three f64_tenth by (simp add: f64_eval)

lemma recorded_coil_nonzero: "\<not> fl_zero binary64 (recorded_coil binary64)"
  by (simp add: recorded_coil_def binary64_simps f64_coil)

subsection \<open>The state a complete run ends in\<close>

lemma final_state_requests: "map fst (trace (final_state ar ob dv c f)) = requests ar ob c"
  by (simp add: final_state_def requests_length answers_length)


lemma final_state_trace_length: "length (trace (final_state ar ob dv c f)) = 51"
  by (simp add: final_state_def requests_length answers_length)

lemma final_state_nth:
  "k < 51 \<Longrightarrow> trace (final_state ar ob dv c f) ! k = (requests ar ob c ! k, answers ob dv c f ! k)"
  by (simp add: final_state_def requests_length answers_length)

lemma final_state_out: "out (final_state ar ob dv c f) = shown_by_run ar dv c f"
  by (simp add: final_state_def)

lemma run_notebook_ends:
  assumes "\<not> fl_zero ar c"
  shows "fst (run ar notebook (answers ob dv c f)) = Inr ()"
    and "snd (run ar notebook (answers ob dv c f)) = final_state ar ob dv c f"
  by (simp_all add: run_notebook [OF assms])

lemmas requests_defs = requests_def construction_def method_req_def unit_req_def

lemma recorded_run:
  "run binary64 notebook (recorded_answers binary64) =
     (Inr (), final_state binary64 recorded_token (recorded_value binary64)
                (recorded_coil binary64) (recorded_field binary64))"
  unfolding recorded_answers_def by (rule run_notebook [OF recorded_coil_nonzero])


subsection \<open>What the syntax of the notebook holds\<close>

lemma no_compound: "filter is_compound (all_stmts notebook) = []"
  by code_simp

lemma no_other_simple: "filter is_other_simple (all_stmts notebook) = []"
  by code_simp

lemma no_other_expr: "filter is_other_expr (all_exprs notebook) = []"
  by code_simp

section \<open>The claims\<close>

text \<open>
  Claim C1, as amended. In the conversion check of cell 7 the value passed to the field
  setter is \<^verbatim>\<open>coil_const * target_current\<close>, with \<^verbatim>\<open>coil_const\<close> the float that
  \<^verbatim>\<open>magnet.coil_constant()\<close> returned and \<^verbatim>\<open>target_current\<close> the literal \<^verbatim>\<open>0.1\<close>, and the
  current printed for the measured field \<^verbatim>\<open>f\<close> is \<^verbatim>\<open>f / coil_const\<close>; these are the only
  arithmetic of the notebook. In exact arithmetic the two conversions are mutual
  inverses: for every nonzero \<open>x\<close> and every \<open>i\<close>, \<open>(x * i) / x = i\<close>. In the binary64
  arithmetic the notebook runs in, the round trip returns \<^verbatim>\<open>0.1\<close> for the coil constant
  \<^verbatim>\<open>0.01666\<close> of the recorded run; it does not return \<open>i\<close> for every nonzero coil
  constant.
\<close>

theorem C1_conversions:
  fixes ar :: "'f arith" and x i :: real
  shows "arithmetic notebook =
      [BinOp (Name ''coil_const'') Mult (Name ''target_current''),
       BinOp (Name ''field'') Div (Name ''coil_const'')]
    \<and> (\<not> fl_zero ar c \<longrightarrow>
         take 4 (drop 13 (trace (snd (run ar notebook (answers ob dv c f))))) =
           [(RGetAttr (ob 2) ''field'', Inr (VObj (ob 13))),
            (RCall (ob 13) [VFloat (fl_mul ar c (fl_lit ar 1 1))] [], Inr (dv 14)),
            (RGetAttr (ob 2) ''field'', Inr (VObj (ob 15))),
            (RCall (ob 15) [] [], Inr (VFloat f))]
         \<and> line ''Measured current is = {} A'' [VFloat (fl_div ar f c)]
             \<in> set (out (snd (run ar notebook (answers ob dv c f)))))
    \<and> (x \<noteq> 0 \<longrightarrow> fl_div exact (fl_mul exact x i) x = i)
    \<and> fl_div binary64 (fl_mul binary64 (recorded_coil binary64) (fl_lit binary64 1 1))
         (recorded_coil binary64) = fl_lit binary64 1 1"
proof (intro conjI impI)
  show "arithmetic notebook =
      [BinOp (Name ''coil_const'') Mult (Name ''target_current''),
       BinOp (Name ''field'') Div (Name ''coil_const'')]"
    by code_simp
  show "fl_div binary64 (fl_mul binary64 (recorded_coil binary64) (fl_lit binary64 1 1))
         (recorded_coil binary64) = fl_lit binary64 1 1"
    unfolding binary64_simps recorded_coil_def by (rule recorded_round_trip)
next
  assume "x \<noteq> 0"
  then show "fl_div exact (fl_mul exact x i) x = i"
    by (simp add: exact_def)
next
  assume nz: "\<not> fl_zero ar c"
  show "take 4 (drop 13 (trace (snd (run ar notebook (answers ob dv c f))))) =
           [(RGetAttr (ob 2) ''field'', Inr (VObj (ob 13))),
            (RCall (ob 13) [VFloat (fl_mul ar c (fl_lit ar 1 1))] [], Inr (dv 14)),
            (RGetAttr (ob 2) ''field'', Inr (VObj (ob 15))),
            (RCall (ob 15) [] [], Inr (VFloat f))]"
    unfolding run_notebook_ends [OF nz] by (simp add: final_state_def requests_defs answers_def)
  show "line ''Measured current is = {} A'' [VFloat (fl_div ar f c)]
          \<in> set (out (snd (run ar notebook (answers ob dv c f))))"
    unfolding run_notebook_ends [OF nz] final_state_out
    by (simp add: shown_by_run_def shown_by_cell7_def)
qed

theorem C1_conversions_witness:
  "\<not> fl_zero binary64 (recorded_coil binary64) \<and> (1666 / 100000 :: real) \<noteq> 0
   \<and> line ''Measured current is = {} A''
        [VFloat (fl_div binary64 (recorded_field binary64) (recorded_coil binary64))]
       \<in> set (out (snd (run binary64 notebook (recorded_answers binary64))))
   \<and> fl_div exact (fl_mul exact (1666 / 100000) (1 / 10)) (1666 / 100000) = 1 / 10"
  using C1_conversions
    [of binary64 "recorded_coil binary64" recorded_token "recorded_value binary64"
        "recorded_field binary64" "1666 / 100000" "1 / 10"]
    recorded_coil_nonzero
  by (simp add: recorded_answers_def)

text \<open>
  The claim as stated fails in the notebook's own arithmetic at the coil constant
  \<^verbatim>\<open>3.0\<close> and the notebook's target current \<^verbatim>\<open>0.1\<close>: \<^verbatim>\<open>(3.0 * 0.1) / 3.0\<close> is the float
  \<^verbatim>\<open>0.10000000000000002\<close>, one unit in the last place above \<^verbatim>\<open>0.1\<close>.
\<close>

theorem C1_round_trip_counterexample:
  "fl_div binary64 (fl_mul binary64 (fl_lit binary64 3 0) (fl_lit binary64 1 1))
     (fl_lit binary64 3 0) \<noteq> fl_lit binary64 1 1
   \<and> fl_div binary64 (fl_mul binary64 (fl_lit binary64 3 0) (fl_lit binary64 1 1))
     (fl_lit binary64 3 0) = fl_lit binary64 10000000000000002 17"
proof -
  have rt: "fl_div binary64 (fl_mul binary64 (fl_lit binary64 3 0) (fl_lit binary64 1 1))
      (fl_lit binary64 3 0) = Fin (7205759403792795 / 72057594037927936)"
    unfolding binary64_simps by (rule three_round_trip)
  have tenth: "fl_lit binary64 1 1 = Fin (3602879701896397 / 36028797018963968)"
    unfolding binary64_simps by (rule f64_tenth)
  have above: "fl_lit binary64 10000000000000002 17 =
      Fin (7205759403792795 / 72057594037927936)"
    unfolding binary64_simps by (simp add: f64_eval)
  show ?thesis
  proof
    show "fl_div binary64 (fl_mul binary64 (fl_lit binary64 3 0) (fl_lit binary64 1 1))
        (fl_lit binary64 3 0) \<noteq> fl_lit binary64 1 1"
      unfolding rt unfolding tenth by simp
    show "fl_div binary64 (fl_mul binary64 (fl_lit binary64 3 0) (fl_lit binary64 1 1))
        (fl_lit binary64 3 0) = fl_lit binary64 10000000000000002 17"
      unfolding rt unfolding above by (rule refl)
  qed
qed

text \<open>
  Claim C2, as amended. The claim says that every operation of the artifact is a
  pass-through call on the driver object. The notebook's operations are: the
  construction of the driver, nineteen method calls on \<^verbatim>\<open>magnet\<close>, thirteen
  \<^verbatim>\<open>print\<close> calls with their thirteen \<^verbatim>\<open>str.format\<close> calls, and two arithmetic
  operations of its own in cell 7, \<^verbatim>\<open>coil_const * target_current\<close> and
  \<^verbatim>\<open>field / coil_const\<close>. It calls nothing else, and it has no compound statement, no
  other kind of simple statement and no other kind of expression, hence no loop, branch,
  function definition or exception handler in which an algorithm, a state machine or
  failure handling could live.
\<close>

theorem C2_operations:
  "filter (\<lambda>e. classify e = Arithmetic) (operations notebook) =
     [BinOp (Name ''coil_const'') Mult (Name ''target_current''),
      BinOp (Name ''field'') Div (Name ''coil_const'')]
   \<and> length (filter pass_through (operations notebook)) = 19
   \<and> length (filter (\<lambda>e. classify e = Construction) (operations notebook)) = 1
   \<and> length (filter (\<lambda>e. classify e = Printing) (operations notebook)) = 13
   \<and> length (filter (\<lambda>e. classify e = Formatting) (operations notebook)) = 13
   \<and> filter (\<lambda>e. classify e = OtherCall) (operations notebook) = []
   \<and> filter is_compound (all_stmts notebook) = []
   \<and> filter is_other_simple (all_stmts notebook) = []
   \<and> filter is_other_expr (all_exprs notebook) = []"
  by code_simp

text \<open>
  The claim as stated fails at the first operation of cell 7: the multiplication
  \<^verbatim>\<open>coil_const * target_current\<close> is an operation of the notebook and is not a call on
  the driver object.
\<close>

theorem C2_arithmetic_counterexample:
  "BinOp (Name ''coil_const'') Mult (Name ''target_current'') \<in> set (operations notebook)
   \<and> \<not> pass_through (BinOp (Name ''coil_const'') Mult (Name ''target_current''))"
  by code_simp




text \<open>
  Claim C4. Exactly one call of the notebook passes a keyword \<^verbatim>\<open>block\<close>: it is
  \<^verbatim>\<open>magnet.set_field(0.01, block=False)\<close>. The calls that set the field are that call
  and the two calls \<^verbatim>\<open>magnet.field(target_field)\<close> and \<^verbatim>\<open>magnet.field(0.005)\<close>, which
  pass no keyword at all and so run in the driver's default mode. In a complete run
  exactly one request carries the keyword, with the value \<^verbatim>\<open>False\<close>, and it is the call
  of the object that \<^verbatim>\<open>magnet.set_field\<close> returned.
\<close>

theorem C4_block_false_once:
  "filter (passes_keyword ''block'') (all_exprs notebook) =
     [Call (Attribute (Name ''magnet'') ''set_field'') [Constant (CFloat 1 2)]
        [Keyword ''block'' (Constant (CBool False))]]
   \<and> filter sets_field (magnet_calls notebook) =
     [(''field'', [Name ''target_field''], []),
      (''field'', [Constant (CFloat 5 3)], []),
      (''set_field'', [Constant (CFloat 1 2)], [Keyword ''block'' (Constant (CBool False))])]
   \<and> (\<not> fl_zero ar c \<longrightarrow>
        filter (request_keyword ''block'')
          (map fst (trace (snd (run ar notebook (answers ob dv c f))))) =
          [RCall (ob 21) [VFloat (fl_lit ar 1 2)] [(''block'', VBool False)]]
        \<and> trace (snd (run ar notebook (answers ob dv c f))) ! 21 =
          (RGetAttr (ob 2) ''set_field'', Inr (VObj (ob 21))))"
proof (intro conjI impI)
  show "filter (passes_keyword ''block'') (all_exprs notebook) =
     [Call (Attribute (Name ''magnet'') ''set_field'') [Constant (CFloat 1 2)]
        [Keyword ''block'' (Constant (CBool False))]]"
    by code_simp
  show "filter sets_field (magnet_calls notebook) =
     [(''field'', [Name ''target_field''], []),
      (''field'', [Constant (CFloat 5 3)], []),
      (''set_field'', [Constant (CFloat 1 2)], [Keyword ''block'' (Constant (CBool False))])]"
    by code_simp
next
  assume nz: "\<not> fl_zero ar c"
  show "filter (request_keyword ''block'')
          (map fst (trace (snd (run ar notebook (answers ob dv c f))))) =
          [RCall (ob 21) [VFloat (fl_lit ar 1 2)] [(''block'', VBool False)]]"
    unfolding run_notebook_ends [OF nz] final_state_requests by (simp add: requests_defs)
  show "trace (snd (run ar notebook (answers ob dv c f))) ! 21 =
          (RGetAttr (ob 2) ''set_field'', Inr (VObj (ob 21)))"
    unfolding run_notebook_ends [OF nz] by (simp add: final_state_nth requests_defs answers_def)
qed

theorem C4_block_false_once_witness:
  "\<not> fl_zero binary64 (recorded_coil binary64)
   \<and> filter (request_keyword ''block'')
       (map fst (trace (snd (run binary64 notebook (recorded_answers binary64))))) =
       [RCall (recorded_token 21) [VFloat (fl_lit binary64 1 2)] [(''block'', VBool False)]]"
  using C4_block_false_once
    [of binary64 "recorded_coil binary64" recorded_token "recorded_value binary64"
        "recorded_field binary64"]
    recorded_coil_nonzero
  by (simp add: recorded_answers_def)

text \<open>
  Claim C5. The notebook calls the driver class once, in cell 3, with the four keyword
  arguments \<^verbatim>\<open>name = 'magnet'\<close>, \<^verbatim>\<open>address = 'GPIB0::4::INSTR'\<close>,
  \<^verbatim>\<open>coil_constant = 0.0166614\<close> and \<^verbatim>\<open>field_ramp_rate = 0.15\<close>, and binds the result to
  \<^verbatim>\<open>magnet\<close>; no other statement binds \<^verbatim>\<open>magnet\<close>, and the only statements before it are
  the two imports, which do not mention \<^verbatim>\<open>magnet\<close>. In a complete run the construction is
  the third request, the only one that passes \<^verbatim>\<open>coil_constant\<close>, and the instance it
  returns is the object of every later attribute read on \<^verbatim>\<open>magnet\<close>.
\<close>

theorem C5_constructed_once_first:
  "filter (calls_name ''Lakeshore625'') (all_exprs notebook) =
     [Call (Name ''Lakeshore625'') []
        [Keyword ''name'' (Constant (CStr ''magnet'')),
         Keyword ''address'' (Constant (CStr ''GPIB0::4::INSTR'')),
         Keyword ''coil_constant'' (Constant (CFloat 166614 7)),
         Keyword ''field_ramp_rate'' (Constant (CFloat 15 2))]]
   \<and> filter (\<lambda>s. ''magnet'' \<in> set (binds s)) (all_stmts notebook) = cell3
   \<and> takeWhile (\<lambda>s. \<not> mentions ''magnet'' s) (concat notebook) = cell1 @ cell2
   \<and> take 1 (dropWhile (\<lambda>s. \<not> mentions ''magnet'' s) (concat notebook)) = cell3
   \<and> (\<not> fl_zero ar c \<longrightarrow>
        take 3 (trace (snd (run ar notebook (answers ob dv c f)))) =
          [(RImport ''qcodes'', Inr (dv 0)),
           (RImportFrom ''qcodes_contrib_drivers.drivers.Lakeshore.Model_625''
              ''Lakeshore625'', Inr (VObj (ob 1))),
           (RCall (ob 1) []
              [(''name'', VStr ''magnet''), (''address'', VStr ''GPIB0::4::INSTR''),
               (''coil_constant'', VFloat (fl_lit ar 166614 7)),
               (''field_ramp_rate'', VFloat (fl_lit ar 15 2))],
            Inr (VObj (ob 2)))]
        \<and> filter (request_keyword ''coil_constant'')
            (map fst (trace (snd (run ar notebook (answers ob dv c f))))) =
            [construction ar ob])"
proof (intro conjI impI)
  show "filter (calls_name ''Lakeshore625'') (all_exprs notebook) =
     [Call (Name ''Lakeshore625'') []
        [Keyword ''name'' (Constant (CStr ''magnet'')),
         Keyword ''address'' (Constant (CStr ''GPIB0::4::INSTR'')),
         Keyword ''coil_constant'' (Constant (CFloat 166614 7)),
         Keyword ''field_ramp_rate'' (Constant (CFloat 15 2))]]"
    by code_simp
  show "filter (\<lambda>s. ''magnet'' \<in> set (binds s)) (all_stmts notebook) = cell3"
    by code_simp
  show "takeWhile (\<lambda>s. \<not> mentions ''magnet'' s) (concat notebook) = cell1 @ cell2"
    by code_simp
  show "take 1 (dropWhile (\<lambda>s. \<not> mentions ''magnet'' s) (concat notebook)) = cell3"
    by code_simp
next
  assume nz: "\<not> fl_zero ar c"
  show "take 3 (trace (snd (run ar notebook (answers ob dv c f)))) =
          [(RImport ''qcodes'', Inr (dv 0)),
           (RImportFrom ''qcodes_contrib_drivers.drivers.Lakeshore.Model_625''
              ''Lakeshore625'', Inr (VObj (ob 1))),
           (RCall (ob 1) []
              [(''name'', VStr ''magnet''), (''address'', VStr ''GPIB0::4::INSTR''),
               (''coil_constant'', VFloat (fl_lit ar 166614 7)),
               (''field_ramp_rate'', VFloat (fl_lit ar 15 2))],
            Inr (VObj (ob 2)))]"
    unfolding run_notebook_ends [OF nz] by (simp add: final_state_def requests_defs answers_def)
  show "filter (request_keyword ''coil_constant'')
            (map fst (trace (snd (run ar notebook (answers ob dv c f))))) =
            [construction ar ob]"
    unfolding run_notebook_ends [OF nz] final_state_requests by (simp add: requests_defs)
qed

theorem C5_constructed_once_first_witness:
  "\<not> fl_zero binary64 (recorded_coil binary64)
   \<and> filter (request_keyword ''coil_constant'')
       (map fst (trace (snd (run binary64 notebook (recorded_answers binary64))))) =
       [construction binary64 recorded_token]"
  using C5_constructed_once_first
    [of binary64 "recorded_coil binary64" recorded_token "recorded_value binary64"
        "recorded_field binary64"]
    recorded_coil_nonzero
  by (simp add: recorded_answers_def)

text \<open>
  Claim C6, as amended. Of the fourteen accessors the specification lists, the notebook
  reads eight as attributes of \<^verbatim>\<open>magnet\<close>: \<^verbatim>\<open>current_limit\<close>, \<^verbatim>\<open>current_ramp_rate\<close>,
  \<^verbatim>\<open>current_rate_limit\<close>, \<^verbatim>\<open>field\<close>, \<^verbatim>\<open>field_ramp_rate\<close>, \<^verbatim>\<open>quench_detection\<close>,
  \<^verbatim>\<open>quench_current_step_limit\<close> and \<^verbatim>\<open>oer_quench\<close>. The other six, \<^verbatim>\<open>current\<close>,
  \<^verbatim>\<open>voltage\<close>, \<^verbatim>\<open>voltage_limit\<close>, \<^verbatim>\<open>persistent_switch_heater\<close>, \<^verbatim>\<open>ramping_state\<close> and
  \<^verbatim>\<open>timeout\<close>, occur nowhere in its code; all fourteen are rows of the table that
  \<^verbatim>\<open>print_readable_snapshot\<close> printed in the recorded run.
\<close>

theorem C6_accessors_exercised:
  "filter (\<lambda>a. a \<in> set (magnet_attrs notebook)) spec_accessors =
     [''current_limit'', ''current_ramp_rate'', ''current_rate_limit'', ''field'',
      ''field_ramp_rate'', ''quench_detection'', ''quench_current_step_limit'',
      ''oer_quench'']
   \<and> filter (\<lambda>a. a \<notin> set (magnet_attrs notebook)) spec_accessors =
     [''current'', ''voltage'', ''voltage_limit'', ''persistent_switch_heater'',
      ''ramping_state'', ''timeout'']
   \<and> filter (\<lambda>a. a \<notin> set recorded_snapshot_rows) spec_accessors = []"
  by code_simp

text \<open>
  The claim as stated fails at \<^verbatim>\<open>voltage\<close>: the specification lists it, and the notebook
  never reads it.
\<close>

theorem C6_voltage_counterexample:
  "''voltage'' \<in> set spec_accessors \<and> ''voltage'' \<notin> set (magnet_attrs notebook)"
  by code_simp

text \<open>
  Claim C7. The notebook has no compound statement (no branch, loop, function or class
  definition, \<^verbatim>\<open>with\<close>, \<^verbatim>\<open>try\<close> or asynchronous construct), no simple statement other
  than imports, assignments to a name and expression statements, and no conditional,
  boolean, comparison, lambda, comprehension, await or yield expression. A run that has
  ended depends only on the answers it consumed: a second run whose answers agree with
  them ends with the same result, the same exchanges and the same output. And in every
  complete run the requests are those of \<open>requests\<close>, whatever the values \<open>dv\<close> and the
  measured field \<open>f\<close> the driver returns.
\<close>

theorem C7_straight_line:
  assumes "run ar notebook as = (r, s)" and "\<forall>q. r \<noteq> Inl (Waiting q)"
    and "take (length (trace s)) as' = take (length (trace s)) as"
  shows "run ar notebook as' = (r, s\<lparr>pending := drop (length (trace s)) as'\<rparr>)
    \<and> filter is_compound (all_stmts notebook) = []
    \<and> filter is_other_simple (all_stmts notebook) = []
    \<and> filter is_other_expr (all_exprs notebook) = []
    \<and> (\<not> fl_zero ar c \<longrightarrow>
         map fst (trace (snd (run ar notebook (answers ob dv c f)))) = requests ar ob c)"
proof (intro conjI impI)
  from assms(2) have "\<And>q. r \<noteq> Inl (Waiting q)" by simp
  from run_consumed [OF assms(1) this assms(3)]
  show "run ar notebook as' = (r, s\<lparr>pending := drop (length (trace s)) as'\<rparr>)" .
  show "filter is_compound (all_stmts notebook) = []" by (rule no_compound)
  show "filter is_other_simple (all_stmts notebook) = []" by (rule no_other_simple)
  show "filter is_other_expr (all_exprs notebook) = []" by (rule no_other_expr)
next
  assume nz: "\<not> fl_zero ar c"
  show "map fst (trace (snd (run ar notebook (answers ob dv c f)))) = requests ar ob c"
    by (simp add: run_notebook_ends [OF nz] final_state_requests)
qed

theorem C7_straight_line_witness:
  "run binary64 notebook (recorded_answers binary64) =
     (Inr (), final_state binary64 recorded_token (recorded_value binary64)
                (recorded_coil binary64) (recorded_field binary64))
   \<and> take 51 (recorded_answers binary64 @ [Inl ''unused'']) =
       take 51 (recorded_answers binary64)
   \<and> run binary64 notebook (recorded_answers binary64 @ [Inl ''unused'']) =
     (Inr (), (final_state binary64 recorded_token (recorded_value binary64)
                (recorded_coil binary64) (recorded_field binary64))
              \<lparr>pending := [Inl ''unused'']\<rparr>)"
proof -
  let ?s = "final_state binary64 recorded_token (recorded_value binary64)
              (recorded_coil binary64) (recorded_field binary64)"
  have len: "length (trace ?s) = 51" by (rule final_state_trace_length)
  have alen: "length (recorded_answers binary64) = 51"
    by (simp add: recorded_answers_def answers_length)
  have same: "take (length (trace ?s)) (recorded_answers binary64 @ [Inl ''unused'']) =
      take (length (trace ?s)) (recorded_answers binary64)"
    by (simp add: len alen)
  have ended: "\<forall>q. (Inr () :: f64 error + unit) \<noteq> Inl (Waiting q)" by simp
  from C7_straight_line [OF recorded_run ended same]
  have "run binary64 notebook (recorded_answers binary64 @ [Inl ''unused'']) =
     (Inr (), ?s\<lparr>pending := drop (length (trace ?s))
        (recorded_answers binary64 @ [Inl ''unused''])\<rparr>)" by blast
  then show ?thesis using recorded_run same by (simp add: len alen)
qed

text \<open>
  Claim C8. The notebook has no compound statement, so no \<^verbatim>\<open>try\<close> and no test of a
  status, and no \<^verbatim>\<open>raise\<close> or \<^verbatim>\<open>assert\<close>. A run makes 51 requests when the coil
  constant is not zero and 17 when it is. If the answers to the first \<open>k\<close> of them are
  those of such a run and the answer to the next request is the exception \<open>x\<close>, the run
  ends in \<open>x\<close>: its exchanges are those first \<open>k\<close> and the failed one, and it consumes
  no answer after the exception, so it neither retries nor goes on.
\<close>

theorem C8_errors_propagate:
  assumes "k < (if fl_zero ar c then 17 else 51)"
  shows "fst (run ar notebook (take k (answers ob dv c f) @ Inl x # rest)) = Inl (Raised x)
    \<and> trace (snd (run ar notebook (take k (answers ob dv c f) @ Inl x # rest))) =
        take k (zip (requests ar ob c) (answers ob dv c f)) @ [(requests ar ob c ! k, Inl x)]
    \<and> pending (snd (run ar notebook (take k (answers ob dv c f) @ Inl x # rest))) = rest
    \<and> filter is_compound (all_stmts notebook) = []
    \<and> filter is_other_simple (all_stmts notebook) = []
    \<and> filter is_other_expr (all_exprs notebook) = []"
proof -
  let ?run = "run ar notebook (take k (answers ob dv c f) @ Inl x # rest)"
  let ?zs = "zip (requests ar ob c) (answers ob dv c f)"
  have k51: "k < 51" using assms by (simp split: if_splits)
  have q: "fst (?zs ! k) = requests ar ob c ! k"
    using k51 by (simp add: requests_length answers_length)
  have "fst ?run = Inl (Raised x) \<and> trace (snd ?run) = take k ?zs @ [(fst (?zs ! k), Inl x)]
      \<and> pending (snd ?run) = rest"
  proof (cases "fl_zero ar c")
    case False
    have k: "k < length (trace (final_state ar ob dv c f))"
      using k51 by (simp add: final_state_trace_length)
    have tr: "trace (final_state ar ob dv c f) = ?zs"
      by (simp add: final_state_def)
    from run_error [OF run_notebook [OF False] k, of x rest] show ?thesis
      by (simp add: tr)
  next
    case True
    with assms have k17: "k < 17" by simp
    from run_zero_coil [OF True, of ob dv f] obtain e where
      r: "run ar notebook (answers ob dv c f) =
        (Inl (Raised ''ZeroDivisionError''),
         \<lparr>env = e, pending = drop 17 (answers ob dv c f), trace = take 17 ?zs,
          out = shown_before_division ar dv c f\<rparr>)" by blast
    let ?s = "\<lparr>env = e, pending = drop 17 (answers ob dv c f), trace = take 17 ?zs,
          out = shown_before_division ar dv c f\<rparr>"
    have k: "k < length (trace ?s)"
      using k17 by (simp add: requests_length answers_length)
    have tk: "min k 17 = k" "take 17 ?zs ! k = ?zs ! k"
      using k17 by simp_all
    from run_error [OF r k, of x rest] show ?thesis
      by (simp add: tk)
  qed
  then show ?thesis
    using no_compound no_other_simple no_other_expr by (simp add: q)
qed

theorem C8_errors_propagate_witness:
  "(8 :: nat) < (if fl_zero binary64 (recorded_coil binary64) then 17 else 51)
   \<and> fst (run binary64 notebook
        (take 8 (recorded_answers binary64) @ [Inl ''VisaIOError''])) =
       Inl (Raised ''VisaIOError'')
   \<and> pending (snd (run binary64 notebook
        (take 8 (recorded_answers binary64) @ [Inl ''VisaIOError'']))) = []"
proof -
  have k: "(8 :: nat) < (if fl_zero binary64 (recorded_coil binary64) then 17 else 51)"
    using recorded_coil_nonzero by simp
  from C8_errors_propagate
    [OF k, of recorded_token "recorded_value binary64" "recorded_field binary64"
        "''VisaIOError''" "[]"] k
  show ?thesis unfolding recorded_answers_def by blast
qed

text \<open>
  Claim C9. The division \<^verbatim>\<open>field / coil_const\<close> is one of the two arithmetic operations
  of the notebook, and the notebook has no compound statement and no comparison or
  conditional expression that could guard it. When the coil constant the driver returns
  is zero, the run makes its first seventeen requests, among them the call that sets the
  field and the call that reads it back, and then ends in \<^verbatim>\<open>ZeroDivisionError\<close>; when
  it is not zero, the run reaches its end.
\<close>

theorem C9_unguarded_division:
  "arithmetic notebook =
      [BinOp (Name ''coil_const'') Mult (Name ''target_current''),
       BinOp (Name ''field'') Div (Name ''coil_const'')]
   \<and> filter is_compound (all_stmts notebook) = []
   \<and> filter is_other_simple (all_stmts notebook) = []
   \<and> filter is_other_expr (all_exprs notebook) = []
   \<and> (fl_zero ar c \<longrightarrow>
        fst (run ar notebook (answers ob dv c f)) = Inl (Raised ''ZeroDivisionError'')
        \<and> trace (snd (run ar notebook (answers ob dv c f))) =
            take 17 (zip (requests ar ob c) (answers ob dv c f))
        \<and> out (snd (run ar notebook (answers ob dv c f))) =
            shown_before_division ar dv c f)
   \<and> (\<not> fl_zero ar c \<longrightarrow> fst (run ar notebook (answers ob dv c f)) = Inr ())"
proof (intro conjI impI)
  show "arithmetic notebook =
      [BinOp (Name ''coil_const'') Mult (Name ''target_current''),
       BinOp (Name ''field'') Div (Name ''coil_const'')]"
    by code_simp
  show "filter is_compound (all_stmts notebook) = []" by (rule no_compound)
  show "filter is_other_simple (all_stmts notebook) = []" by (rule no_other_simple)
  show "filter is_other_expr (all_exprs notebook) = []" by (rule no_other_expr)
next
  assume z: "fl_zero ar c"
  from run_zero_coil [OF z, of ob dv f] obtain e where
    r: "run ar notebook (answers ob dv c f) =
      (Inl (Raised ''ZeroDivisionError''),
       \<lparr>env = e, pending = drop 17 (answers ob dv c f),
        trace = take 17 (zip (requests ar ob c) (answers ob dv c f)),
        out = shown_before_division ar dv c f\<rparr>)" by blast
  show "fst (run ar notebook (answers ob dv c f)) = Inl (Raised ''ZeroDivisionError'')"
    by (simp add: r)
  show "trace (snd (run ar notebook (answers ob dv c f))) =
            take 17 (zip (requests ar ob c) (answers ob dv c f))"
    by (simp add: r)
  show "out (snd (run ar notebook (answers ob dv c f))) = shown_before_division ar dv c f"
    by (simp add: r)
next
  assume "\<not> fl_zero ar c"
  then show "fst (run ar notebook (answers ob dv c f)) = Inr ()"
    by (rule run_notebook_ends)
qed

theorem C9_unguarded_division_witness:
  "fl_zero binary64 (fl_lit binary64 0 0)
   \<and> fst (run binary64 notebook
        (answers recorded_token (recorded_value binary64) (fl_lit binary64 0 0)
           (recorded_field binary64))) = Inl (Raised ''ZeroDivisionError'')
   \<and> \<not> fl_zero binary64 (recorded_coil binary64)
   \<and> fst (run binary64 notebook (recorded_answers binary64)) = Inr ()"
proof -
  have z: "fl_zero binary64 (fl_lit binary64 0 0)"
    by (simp add: binary64_simps f64_nought)
  from C9_unguarded_division
    [of binary64 "fl_lit binary64 0 0" recorded_token "recorded_value binary64"
        "recorded_field binary64"] z
  have "fst (run binary64 notebook
        (answers recorded_token (recorded_value binary64) (fl_lit binary64 0 0)
           (recorded_field binary64))) = Inl (Raised ''ZeroDivisionError'')" by blast
  moreover from C9_unguarded_division
    [of binary64 "recorded_coil binary64" recorded_token "recorded_value binary64"
        "recorded_field binary64"] recorded_coil_nonzero
  have "fst (run binary64 notebook (recorded_answers binary64)) = Inr ()"
    unfolding recorded_answers_def by blast
  ultimately show ?thesis using z recorded_coil_nonzero by blast
qed

text \<open>
  Claim C10, as amended. The method calls on \<^verbatim>\<open>magnet\<close> that pass a positional value
  are the calls of \<^verbatim>\<open>field\<close>, \<^verbatim>\<open>set_field\<close> and \<^verbatim>\<open>field_ramp_rate\<close>; every call of
  \<^verbatim>\<open>coil_constant\<close>, \<^verbatim>\<open>current_limit\<close>, \<^verbatim>\<open>current_rate_limit\<close>, \<^verbatim>\<open>current_ramp_rate\<close>,
  \<^verbatim>\<open>quench_detection\<close>, \<^verbatim>\<open>quench_current_step_limit\<close> and \<^verbatim>\<open>oer_quench\<close> passes nothing;
  and the notebook has no assignment to an attribute, no augmented assignment and no
  deletion. In a complete run the requests that pass a value are the construction,
  which passes \<^verbatim>\<open>coil_constant\<close> and \<^verbatim>\<open>field_ramp_rate\<close> among its four keywords, the
  snapshot with \<^verbatim>\<open>update=True\<close>, and the five calls of the objects that \<^verbatim>\<open>magnet.field\<close>,
  \<^verbatim>\<open>magnet.set_field\<close> and \<^verbatim>\<open>magnet.field_ramp_rate\<close> returned. Between the two reads of
  \<^verbatim>\<open>current_ramp_rate\<close> in cell 11, answered by \<open>dv 30\<close> and \<open>dv 40\<close>, the notebook makes
  one request that passes a value, the call \<^verbatim>\<open>magnet.field_ramp_rate(0.2)\<close>. Whether a
  parameter that the notebook only reads keeps its value is decided by the driver, not
  by the notebook.
\<close>

theorem C10_values_passed:
  "map fst (filter has_positional (magnet_calls notebook)) =
     [''field'', ''field'', ''set_field'', ''field_ramp_rate'', ''field_ramp_rate'']
   \<and> filter (called_in read_only_parameters) (magnet_calls notebook) =
     [(''coil_constant'', [], []), (''current_limit'', [], []),
      (''current_rate_limit'', [], []), (''current_ramp_rate'', [], []),
      (''current_ramp_rate'', [], []), (''quench_detection'', [], []),
      (''quench_current_step_limit'', [], []), (''oer_quench'', [], [])]
   \<and> filter is_other_simple (all_stmts notebook) = []
   \<and> (\<not> fl_zero ar c \<longrightarrow>
        filter request_passes
          (map fst (trace (snd (run ar notebook (answers ob dv c f))))) =
          [RCall (ob 1) []
             [(''name'', VStr ''magnet''), (''address'', VStr ''GPIB0::4::INSTR''),
              (''coil_constant'', VFloat (fl_lit ar 166614 7)),
              (''field_ramp_rate'', VFloat (fl_lit ar 15 2))],
           RCall (ob 5) [] [(''update'', VBool True)],
           RCall (ob 13) [VFloat (fl_mul ar c (fl_lit ar 1 1))] [],
           RCall (ob 19) [VFloat (fl_lit ar 5 3)] [],
           RCall (ob 21) [VFloat (fl_lit ar 1 2)] [(''block'', VBool False)],
           RCall (ob 23) [VFloat (fl_lit ar 1 1)] [],
           RCall (ob 33) [VFloat (fl_lit ar 2 1)] []]
        \<and> map (\<lambda>k. trace (snd (run ar notebook (answers ob dv c f))) ! k)
            [1, 5, 13, 19, 21, 23, 33] =
          [(RImportFrom ''qcodes_contrib_drivers.drivers.Lakeshore.Model_625''
              ''Lakeshore625'', Inr (VObj (ob 1))),
           (RGetAttr (ob 2) ''print_readable_snapshot'', Inr (VObj (ob 5))),
           (RGetAttr (ob 2) ''field'', Inr (VObj (ob 13))),
           (RGetAttr (ob 2) ''field'', Inr (VObj (ob 19))),
           (RGetAttr (ob 2) ''set_field'', Inr (VObj (ob 21))),
           (RGetAttr (ob 2) ''field_ramp_rate'', Inr (VObj (ob 23))),
           (RGetAttr (ob 2) ''field_ramp_rate'', Inr (VObj (ob 33)))]
        \<and> take 12 (drop 29 (trace (snd (run ar notebook (answers ob dv c f))))) =
          [(RGetAttr (ob 2) ''current_ramp_rate'', Inr (VObj (ob 29))),
           (RCall (ob 29) [] [], Inr (dv 30)),
           (RGetAttr (ob 2) ''current_ramp_rate'', Inr (VObj (ob 31))),
           (RGetAttr (ob 31) ''unit'', Inr (dv 32)),
           (RGetAttr (ob 2) ''field_ramp_rate'', Inr (VObj (ob 33))),
           (RCall (ob 33) [VFloat (fl_lit ar 2 1)] [], Inr (dv 34)),
           (RGetAttr (ob 2) ''field_ramp_rate'', Inr (VObj (ob 35))),
           (RCall (ob 35) [] [], Inr (dv 36)),
           (RGetAttr (ob 2) ''field_ramp_rate'', Inr (VObj (ob 37))),
           (RGetAttr (ob 37) ''unit'', Inr (dv 38)),
           (RGetAttr (ob 2) ''current_ramp_rate'', Inr (VObj (ob 39))),
           (RCall (ob 39) [] [], Inr (dv 40))])"
proof (intro conjI impI)
  show "map fst (filter has_positional (magnet_calls notebook)) =
     [''field'', ''field'', ''set_field'', ''field_ramp_rate'', ''field_ramp_rate'']"
    by code_simp
  show "filter (called_in read_only_parameters) (magnet_calls notebook) =
     [(''coil_constant'', [], []), (''current_limit'', [], []),
      (''current_rate_limit'', [], []), (''current_ramp_rate'', [], []),
      (''current_ramp_rate'', [], []), (''quench_detection'', [], []),
      (''quench_current_step_limit'', [], []), (''oer_quench'', [], [])]"
    by code_simp
  show "filter is_other_simple (all_stmts notebook) = []"
    by (rule no_other_simple)
next
  assume nz: "\<not> fl_zero ar c"
  show "filter request_passes
          (map fst (trace (snd (run ar notebook (answers ob dv c f))))) =
          [RCall (ob 1) []
             [(''name'', VStr ''magnet''), (''address'', VStr ''GPIB0::4::INSTR''),
              (''coil_constant'', VFloat (fl_lit ar 166614 7)),
              (''field_ramp_rate'', VFloat (fl_lit ar 15 2))],
           RCall (ob 5) [] [(''update'', VBool True)],
           RCall (ob 13) [VFloat (fl_mul ar c (fl_lit ar 1 1))] [],
           RCall (ob 19) [VFloat (fl_lit ar 5 3)] [],
           RCall (ob 21) [VFloat (fl_lit ar 1 2)] [(''block'', VBool False)],
           RCall (ob 23) [VFloat (fl_lit ar 1 1)] [],
           RCall (ob 33) [VFloat (fl_lit ar 2 1)] []]"
    unfolding run_notebook_ends [OF nz] final_state_requests by (simp add: requests_defs)
  show "map (\<lambda>k. trace (snd (run ar notebook (answers ob dv c f))) ! k)
            [1, 5, 13, 19, 21, 23, 33] =
          [(RImportFrom ''qcodes_contrib_drivers.drivers.Lakeshore.Model_625''
              ''Lakeshore625'', Inr (VObj (ob 1))),
           (RGetAttr (ob 2) ''print_readable_snapshot'', Inr (VObj (ob 5))),
           (RGetAttr (ob 2) ''field'', Inr (VObj (ob 13))),
           (RGetAttr (ob 2) ''field'', Inr (VObj (ob 19))),
           (RGetAttr (ob 2) ''set_field'', Inr (VObj (ob 21))),
           (RGetAttr (ob 2) ''field_ramp_rate'', Inr (VObj (ob 23))),
           (RGetAttr (ob 2) ''field_ramp_rate'', Inr (VObj (ob 33)))]"
    unfolding run_notebook_ends [OF nz] by (simp add: final_state_nth requests_defs answers_def)
  show "take 12 (drop 29 (trace (snd (run ar notebook (answers ob dv c f))))) =
          [(RGetAttr (ob 2) ''current_ramp_rate'', Inr (VObj (ob 29))),
           (RCall (ob 29) [] [], Inr (dv 30)),
           (RGetAttr (ob 2) ''current_ramp_rate'', Inr (VObj (ob 31))),
           (RGetAttr (ob 31) ''unit'', Inr (dv 32)),
           (RGetAttr (ob 2) ''field_ramp_rate'', Inr (VObj (ob 33))),
           (RCall (ob 33) [VFloat (fl_lit ar 2 1)] [], Inr (dv 34)),
           (RGetAttr (ob 2) ''field_ramp_rate'', Inr (VObj (ob 35))),
           (RCall (ob 35) [] [], Inr (dv 36)),
           (RGetAttr (ob 2) ''field_ramp_rate'', Inr (VObj (ob 37))),
           (RGetAttr (ob 37) ''unit'', Inr (dv 38)),
           (RGetAttr (ob 2) ''current_ramp_rate'', Inr (VObj (ob 39))),
           (RCall (ob 39) [] [], Inr (dv 40))]"
    unfolding run_notebook_ends [OF nz] by (simp add: final_state_def requests_defs answers_def)
qed

theorem C10_values_passed_witness:
  "\<not> fl_zero binary64 (recorded_coil binary64)
   \<and> filter request_passes
       (map fst (trace (snd (run binary64 notebook (recorded_answers binary64))))) =
       [RCall ''Lakeshore625'' []
          [(''name'', VStr ''magnet''), (''address'', VStr ''GPIB0::4::INSTR''),
           (''coil_constant'', VFloat (fl_lit binary64 166614 7)),
           (''field_ramp_rate'', VFloat (fl_lit binary64 15 2))],
        RCall ''magnet.print_readable_snapshot'' [] [(''update'', VBool True)],
        RCall ''magnet.field''
          [VFloat (fl_mul binary64 (recorded_coil binary64) (fl_lit binary64 1 1))] [],
        RCall ''magnet.field'' [VFloat (fl_lit binary64 5 3)] [],
        RCall ''magnet.set_field'' [VFloat (fl_lit binary64 1 2)] [(''block'', VBool False)],
        RCall ''magnet.field_ramp_rate'' [VFloat (fl_lit binary64 1 1)] [],
        RCall ''magnet.field_ramp_rate'' [VFloat (fl_lit binary64 2 1)] []]"
  using C10_values_passed
    [of binary64 "recorded_coil binary64" recorded_token "recorded_value binary64"
        "recorded_field binary64"]
    recorded_coil_nonzero
  by (simp add: recorded_answers_def recorded_token_def)

text \<open>
  The claim as stated fails for \<^verbatim>\<open>current_ramp_rate\<close> in the recorded run: the read of
  request 30 returned \<^verbatim>\<open>0.1\<close> and the read of request 40 returned \<^verbatim>\<open>0.2\<close>, two
  different floats, and the only request in between that passes a value is the
  notebook's \<^verbatim>\<open>magnet.field_ramp_rate(0.2)\<close>. The notebook's write of the field ramp rate
  modified the current ramp rate, as the comment at the head of cell 11 says it does.
\<close>

theorem C10_current_ramp_rate_counterexample:
  "fst (run binary64 notebook (recorded_answers binary64)) = Inr ()
   \<and> map (\<lambda>k. trace (snd (run binary64 notebook (recorded_answers binary64))) ! k)
       [30, 34, 40] =
       [(RCall ''magnet.current_ramp_rate'' [] [], Inr (VFloat (fl_lit binary64 1 1))),
        (RCall ''magnet.field_ramp_rate'' [VFloat (fl_lit binary64 2 1)] [], Inr VNone),
        (RCall ''magnet.current_ramp_rate'' [] [], Inr (VFloat (fl_lit binary64 2 1)))]
   \<and> filter request_passes
       (take 9 (drop 31 (map fst (trace (snd (run binary64 notebook
          (recorded_answers binary64))))))) =
       [RCall ''magnet.field_ramp_rate'' [VFloat (fl_lit binary64 2 1)] []]
   \<and> fl_lit binary64 1 1 \<noteq> fl_lit binary64 2 1"
proof (intro conjI)
  show "fst (run binary64 notebook (recorded_answers binary64)) = Inr ()"
    unfolding recorded_answers_def by (rule run_notebook_ends [OF recorded_coil_nonzero])
  show "map (\<lambda>k. trace (snd (run binary64 notebook (recorded_answers binary64))) ! k)
       [30, 34, 40] =
       [(RCall ''magnet.current_ramp_rate'' [] [], Inr (VFloat (fl_lit binary64 1 1))),
        (RCall ''magnet.field_ramp_rate'' [VFloat (fl_lit binary64 2 1)] [], Inr VNone),
        (RCall ''magnet.current_ramp_rate'' [] [], Inr (VFloat (fl_lit binary64 2 1)))]"
    unfolding recorded_answers_def run_notebook_ends [OF recorded_coil_nonzero]
    by (simp add: final_state_nth requests_defs answers_def recorded_token_def
        recorded_value_def)
  show "filter request_passes
       (take 9 (drop 31 (map fst (trace (snd (run binary64 notebook
          (recorded_answers binary64))))))) =
       [RCall ''magnet.field_ramp_rate'' [VFloat (fl_lit binary64 2 1)] []]"
    unfolding recorded_answers_def run_notebook_ends [OF recorded_coil_nonzero]
      final_state_requests
    by (simp add: requests_defs recorded_token_def)
  have a: "fl_lit binary64 1 1 = Fin (3602879701896397 / 36028797018963968)"
    unfolding binary64_simps by (rule f64_tenth)
  have b: "fl_lit binary64 2 1 = Fin (3602879701896397 / 18014398509481984)"
    unfolding binary64_simps by (rule f64_fifth)
  show "fl_lit binary64 1 1 \<noteq> fl_lit binary64 2 1"
    unfolding a b by simp
qed

end
